theory Spec2Isabelle
  imports Complex_Main "HOL-Library.Word" "HOL-Library.Signed_Division"
begin

unbundle bit_operations_syntax

section \<open>Data model of \<open>Core/Src/motor.c\<close>\<close>

text \<open>
  The firmware keeps its state in file-scope variables of \<open>motor.c\<close>. The embedding
  collects them in one record and passes it through every function. Fixed-width C
  integers are words: \<open>uint8_t\<close>, \<open>uint16_t\<close> and \<open>uint32_t\<close> are read with
  \<open>unat\<close>; \<open>int32_t\<close> and \<open>int\<close> (32 bits on the Cortex-M target) are 32-bit words
  read with \<open>sint\<close> and compared with \<open>\<le>s\<close> and \<open><s\<close>, and their arithmetic wraps in
  two's complement, as the target's does.
\<close>

type_synonym u8 = "8 word"
type_synonym u16 = "16 word"
type_synonym u32 = "32 word"
type_synonym s32 = "32 word"

text \<open>
  The status type as \<open>motor.c\<close> uses it (\<open>Stopping\<close> and \<open>CalibratingEndPoint\<close> occur in
  the code next to \<open>Stopped\<close>, \<open>Moving\<close> and \<open>Error\<close>). The direction \<open>None\<close> of the C enum
  is written \<open>None_dir\<close> here.
\<close>

datatype motor_status = Stopped | Moving | Stopping | CalibratingEndPoint | Error

datatype motor_direction = None_dir | Up | Down

datatype motor_command = NoCommand | MotorUp | MotorDown | Stop

text \<open>The one run-time failure the arithmetic of \<open>motor.c\<close> can meet.\<close>

datatype fault = DivisionByZero

text \<open>
  Constants that \<open>motor.c\<close> takes from \<open>main.h\<close>. Their values are board-specific, so
  they are parameters of the model. \<open>status_code\<close> is the numbering of the status enum.
\<close>

record board =
  GEAR_RATIO :: int
  HALL_SENSOR_GRACE_PERIOD :: u32
  HALL_SENSOR_TIMEOUT :: u32
  HALL_SENSOR_TIMEOUT_WHILE_STOPPING :: u32
  ENDPOINT_CALIBRATION_PERIOD :: u32
  VERSION_MAJOR :: u8
  VERSION_MINOR :: u8
  status_code :: "motor_status \<Rightarrow> u8"

text \<open>
  The variables of \<open>motor.c\<close>, followed by the hardware the file drives: the two compare
  registers of TIM1, the running state of the two low-side PWM channels, the two high-side
  gate pins, the HAL millisecond counter, the emulated EEPROM (a log of writes, newest
  first, keyed by virtual address) and the two analog readings.
\<close>

record motor =
  status :: motor_status
  direction :: motor_direction
  target_location :: s32
  location :: s32
  full_curtain_length :: u32
  max_curtain_length :: u32
  minimum_voltage :: u16
  default_speed :: u8
  target_speed :: u8
  curr_pwm :: u8
  endpoint_calibration_started_timestamp :: u32
  calibrating :: u8
  auto_calibration :: u8
  hall_sensor_1_idle_time :: u32
  hall_sensor_1_ticks :: u32
  hall_sensor_2_ticks :: u32
  hall_sensor_1_interval :: u32
  movement_started_timestamp :: u32
  rotor_position :: s32
  min_slowdown_speed :: u8
  slowdown_factor :: u8
  command :: motor_command
  dir_error :: s32
  sensor_ticks_while_stopped :: s32
  sensor_ticks_while_calibrating_endpoint :: s32
  saved_hall_sensor_1_ticks :: u32
  saved_hall_sensor_2_ticks :: u32
  CCR1 :: u32
  CCR4 :: u32
  LOW1_PWM_running :: bool
  LOW2_PWM_running :: bool
  HIGH_1_GATE :: bool
  HIGH_2_GATE :: bool
  uwTick :: u32
  eeprom :: "(u16 \<times> u16) list"
  adc_voltage :: u16
  adc_motor_current :: u8

section \<open>External collaborators\<close>

datatype pwm_channel = LOW1_PWM_CHANNEL | LOW2_PWM_CHANNEL

text \<open>
  Modelled from the spec: \<open>pwm_start(channel)\<close> and \<open>pwm_stop(channel)\<close>, defined outside
  \<open>motor.c\<close>: "start/stop PWM output on a named low-side channel".
\<close>

fun pwm_stop :: "pwm_channel \<Rightarrow> motor \<Rightarrow> motor" where
  "pwm_stop LOW1_PWM_CHANNEL s = s\<lparr>LOW1_PWM_running := False\<rparr>"
| "pwm_stop LOW2_PWM_CHANNEL s = s\<lparr>LOW2_PWM_running := False\<rparr>"

fun pwm_start :: "pwm_channel \<Rightarrow> motor \<Rightarrow> motor" where
  "pwm_start LOW1_PWM_CHANNEL s = s\<lparr>LOW1_PWM_running := True\<rparr>"
| "pwm_start LOW2_PWM_CHANNEL s = s\<lparr>LOW2_PWM_running := True\<rparr>"

text \<open>
  Modelled from the spec: \<open>now_ms()\<close>, "monotonic millisecond counter"; in the code it is
  \<open>HAL_GetTick()\<close>, which reads the HAL's tick variable.
\<close>

definition HAL_GetTick :: "motor \<Rightarrow> u32" where
  "HAL_GetTick s = uwTick s"

text \<open>
  Modelled from the spec: the "wait \<approx>10 ms settling" of \<open>HAL_Delay\<close>, a busy wait on the
  millisecond counter; no interrupt handler is interleaved here.
\<close>

definition HAL_Delay :: "u32 \<Rightarrow> motor \<Rightarrow> motor" where
  "HAL_Delay ms s = s\<lparr>uwTick := uwTick s + ms\<rparr>"

section \<open>Motion primitives\<close>

text \<open>\<open>motor_stop\<close>, lines 445 to 475, statement by statement.\<close>

definition motor_stop :: "motor \<Rightarrow> motor" where
  "motor_stop s0 =
    (let s = pwm_stop LOW1_PWM_CHANNEL s0;
         s = pwm_stop LOW2_PWM_CHANNEL s;
         s = s\<lparr>HIGH_1_GATE := False\<rparr>;
         s = s\<lparr>HIGH_2_GATE := False\<rparr>;
         s = s\<lparr>CCR1 := 0\<rparr>;
         s = s\<lparr>CCR4 := 0\<rparr>;
         s = s\<lparr>status := Stopped\<rparr>;
         s = s\<lparr>direction := None_dir\<rparr>;
         s = s\<lparr>curr_pwm := 0\<rparr>;
         s = s\<lparr>sensor_ticks_while_stopped := 0\<rparr>;
         s = s\<lparr>saved_hall_sensor_1_ticks := hall_sensor_1_ticks s\<rparr>;
         s = s\<lparr>saved_hall_sensor_2_ticks := hall_sensor_2_ticks s\<rparr>;
         s = s\<lparr>hall_sensor_1_interval := 0\<rparr>;
         s = s\<lparr>hall_sensor_1_ticks := 0\<rparr>;
         s = s\<lparr>hall_sensor_2_ticks := 0\<rparr>;
         s = s\<lparr>hall_sensor_1_idle_time := 0\<rparr>;
         s = s\<lparr>target_speed := 0\<rparr>
     in s)"

text \<open>\<open>INITIAL_PWM\<close>, line 35.\<close>

definition INITIAL_PWM :: u8 where
  "INITIAL_PWM = 60"

text \<open>\<open>motor_start_common\<close>, \<open>motor_up\<close> and \<open>motor_down\<close>, lines 478 to 509.\<close>

definition motor_start_common :: "u8 \<Rightarrow> motor \<Rightarrow> motor" where
  "motor_start_common motor_speed s0 =
    (let s = motor_stop s0;
         s = HAL_Delay 10 s;
         s = s\<lparr>movement_started_timestamp := HAL_GetTick s\<rparr>;
         s = s\<lparr>target_speed := motor_speed\<rparr>;
         s = s\<lparr>curr_pwm := INITIAL_PWM\<rparr>;
         s = s\<lparr>status := Moving\<rparr>
     in s)"

definition motor_up :: "u8 \<Rightarrow> motor \<Rightarrow> motor" where
  "motor_up motor_speed s0 =
    (let s = motor_start_common motor_speed s0;
         s = pwm_start LOW2_PWM_CHANNEL s;
         s = s\<lparr>CCR4 := ucast INITIAL_PWM\<rparr>;
         s = s\<lparr>HIGH_1_GATE := True\<rparr>;
         s = s\<lparr>direction := Up\<rparr>
     in s)"

definition motor_down :: "u8 \<Rightarrow> motor \<Rightarrow> motor" where
  "motor_down motor_speed s0 =
    (let s = motor_start_common motor_speed s0;
         s = pwm_start LOW1_PWM_CHANNEL s;
         s = s\<lparr>CCR1 := ucast INITIAL_PWM\<rparr>;
         s = s\<lparr>HIGH_2_GATE := True\<rparr>;
         s = s\<lparr>direction := Down\<rparr>
     in s)"

text \<open>\<open>motor_process\<close>, lines 523 to 534: the main loop drains the one-slot mailbox.\<close>

definition motor_process :: "motor \<Rightarrow> motor" where
  "motor_process s =
    (if command s = MotorUp then (motor_up (default_speed s) s)\<lparr>command := NoCommand\<rparr>
     else if command s = MotorDown then (motor_down (default_speed s) s)\<lparr>command := NoCommand\<rparr>
     else if command s = Stop then (motor_stop s)\<lparr>command := NoCommand\<rparr>
     else s)"

section \<open>Speed measurement and regulation\<close>

text \<open>
  C division. A zero divisor is a fault of the model, so that a guard the code lacks
  shows up as a result \<open>Inl DivisionByZero\<close>. Division of \<open>int\<close> truncates towards zero
  (\<open>sdiv\<close>); on unsigned operands it is \<open>div\<close>.
\<close>

definition c_div_int :: "int \<Rightarrow> int \<Rightarrow> fault + int" where
  "c_div_int a b = (if b = 0 then Inl DivisionByZero else Inr (a sdiv b))"

definition c_div_u32 :: "u32 \<Rightarrow> u32 \<Rightarrow> fault + u32" where
  "c_div_u32 a b = (if b = 0 then Inl DivisionByZero else Inr (a div b))"

text \<open>
  \<open>get_rpm\<close>, lines 230 to 238. \<open>60*1000/GEAR_RATIO\<close> is a division of \<open>int\<close>; its
  quotient is converted to \<open>uint32_t\<close> for the division by \<open>hall_sensor_1_interval\<close>, and
  the last division by 2 is unsigned as well. The result is returned as \<open>int\<close>.
\<close>

definition get_rpm :: "board \<Rightarrow> motor \<Rightarrow> fault + s32" where
  "get_rpm B s =
    (if hall_sensor_1_interval s \<noteq> 0 then
       (case c_div_int (60 * 1000) (GEAR_RATIO B) of
          Inl f \<Rightarrow> Inl f
        | Inr q \<Rightarrow>
          (case c_div_u32 (word_of_int q) (hall_sensor_1_interval s) of
             Inl f \<Rightarrow> Inl f
           | Inr q' \<Rightarrow> c_div_u32 q' 2))
     else Inr 0)"

text \<open>
  \<open>motor_adjust_rpm\<close>, lines 351 to 380. \<open>speed\<close> is \<open>uint32_t\<close>, so the comparisons with
  the promoted \<open>target_speed\<close> and the two differences are unsigned; \<open>curr_pwm\<close> is
  \<open>uint8_t\<close> and its increments and decrements wrap at 8 bits.
\<close>

definition adjust_up :: "u32 \<Rightarrow> motor \<Rightarrow> motor" where
  "adjust_up speed s0 =
    (if speed < ucast (target_speed s0) then
       (if curr_pwm s0 < 254 then
          (let s = s0\<lparr>curr_pwm := curr_pwm s0 + 1\<rparr>;
               s = (if ucast (target_speed s) - speed > 2
                    then s\<lparr>curr_pwm := curr_pwm s + 1\<rparr> else s);
               s = (if direction s = Up then s\<lparr>CCR4 := ucast (curr_pwm s)\<rparr>
                    else s\<lparr>CCR1 := ucast (curr_pwm s)\<rparr>)
           in s)
        else s0)
     else s0)"

definition adjust_down :: "u32 \<Rightarrow> motor \<Rightarrow> motor" where
  "adjust_down speed s0 =
    (if speed > ucast (target_speed s0) then
       (if curr_pwm s0 > 1 then
          (let s = s0\<lparr>curr_pwm := curr_pwm s0 - 1\<rparr>;
               s = (if speed - ucast (target_speed s) > 2
                    then s\<lparr>curr_pwm := curr_pwm s - 1\<rparr> else s);
               s = (if speed - ucast (target_speed s) > 4
                    then s\<lparr>curr_pwm := curr_pwm s - 1\<rparr> else s);
               s = (if direction s = Up then s\<lparr>CCR4 := ucast (curr_pwm s)\<rparr>
                    else s\<lparr>CCR1 := ucast (curr_pwm s)\<rparr>)
           in s)
        else s0)
     else s0)"

definition motor_adjust_rpm :: "board \<Rightarrow> motor \<Rightarrow> fault + motor" where
  "motor_adjust_rpm B s =
    (if status s = Moving \<or> status s = Stopping then
       (case get_rpm B s of
          Inl f \<Rightarrow> Inl f
        | Inr rpm \<Rightarrow> Inr (adjust_down rpm (adjust_up rpm s)))
     else Inr s)"

section \<open>Stall supervision and endpoint calibration\<close>

text \<open>\<open>motor_stopped\<close>, lines 415 to 442.\<close>

definition motor_stopped :: "motor \<Rightarrow> motor" where
  "motor_stopped s0 =
    (if status s0 \<noteq> Stopped then
       (let current_status = status s0;
            current_direction = direction s0;
            s = motor_stop s0
        in if current_status = Moving then
             (if current_direction = Up then
                (let s = s\<lparr>status := CalibratingEndPoint\<rparr>;
                     s = s\<lparr>sensor_ticks_while_calibrating_endpoint := 0\<rparr>;
                     s = s\<lparr>endpoint_calibration_started_timestamp := HAL_GetTick s\<rparr>
                 in s)
              else s\<lparr>status := Error\<rparr>)
           else if current_status = Stopping then s\<lparr>status := Stopped\<rparr>
           else s)
     else s0)"

text \<open>\<open>motor_stall_check\<close>, lines 386 to 413, run by the 1 ms tick.\<close>

definition motor_stall_check :: "board \<Rightarrow> motor \<Rightarrow> motor" where
  "motor_stall_check B s0 =
    (if status s0 = Moving \<or> status s0 = Stopping then
       (let s = s0\<lparr>hall_sensor_1_idle_time := hall_sensor_1_idle_time s0 + 1\<rparr>
        in if HAL_GetTick s - movement_started_timestamp s > HALL_SENSOR_GRACE_PERIOD B then
             (if hall_sensor_1_idle_time s > HALL_SENSOR_TIMEOUT B then
                (if status s = Stopping
                    \<and> hall_sensor_1_idle_time s < HALL_SENSOR_TIMEOUT_WHILE_STOPPING B
                 then s
                 else (motor_stopped s)\<lparr>hall_sensor_1_idle_time := 0\<rparr>)
              else s)
           else s)
     else if status s0 = CalibratingEndPoint then
       (if HAL_GetTick s0 - endpoint_calibration_started_timestamp s0
             > ENDPOINT_CALIBRATION_PERIOD B
        then s0\<lparr>status := Stopped, calibrating := 0, location := 0\<rparr>
        else s0)
     else s0)"

section \<open>Location tracking\<close>

text \<open>C's \<open>abs\<close> on \<open>int\<close>; at the most negative value the negation wraps.\<close>

definition abs_s32 :: "s32 \<Rightarrow> s32" where
  "abs_s32 x = (if x <s 0 then - x else x)"

text \<open>
  The slowdown block of \<open>process_location\<close>, lines 267 to 278. \<open>target_speed\<close>,
  \<open>slowdown_factor\<close> and \<open>min_slowdown_speed\<close> are \<open>uint8_t\<close> and promote to \<open>int\<close>; the
  product of two of them is at most 65025, so it is computed exactly. \<open>new_speed\<close> is an
  \<open>int\<close> and is truncated to 8 bits when stored in \<open>target_speed\<close>.
\<close>

definition slowdown :: "motor \<Rightarrow> fault + (s32 \<times> motor)" where
  "slowdown s0 =
    (if direction s0 \<noteq> None_dir then
       (let distance_to_target = abs_s32 (target_location s0 - location s0)
        in if sint distance_to_target
                < (uint (target_speed s0) * uint (slowdown_factor s0)) sdiv 8 then
             (let s = s0\<lparr>status := Stopping\<rparr>
              in case c_div_int (sint (distance_to_target * 8)) (uint (slowdown_factor s)) of
                   Inl f \<Rightarrow> Inl f
                 | Inr q \<Rightarrow>
                   (let new_speed = (if q < uint (min_slowdown_speed s)
                                     then uint (min_slowdown_speed s) else q);
                        s = (if new_speed < uint (target_speed s)
                             then s\<lparr>target_speed := word_of_int new_speed\<rparr> else s)
                    in Inr (0, s)))
           else Inr (0, s0))
     else Inr (0, s0))"

text \<open>
  \<open>process_location\<close>, lines 245 to 281. The result is the returned \<open>int\<close> and the new
  state. After an early \<open>return 1\<close> the slowdown block is not run.
\<close>

definition process_location :: "motor_direction \<Rightarrow> motor \<Rightarrow> fault + (s32 \<times> motor)" where
  "process_location sensor_direction s0 =
    (if calibrating s0 = 0 then
       (if sensor_direction = Up then
          (let s = s0\<lparr>location := location s0 - 1\<rparr>
           in if direction s = Up \<and> target_location s \<noteq> - 1
                 \<and> location s - 1 \<le>s target_location s
              then Inr (1, motor_stop s)
              else slowdown s)
        else if sensor_direction = Down then
          (let s = s0\<lparr>location := location s0 + 1\<rparr>
           in if direction s = Down \<and> target_location s \<le>s location s + 1
              then Inr (1, motor_stop s)
              else slowdown s)
        else slowdown s0)
     else Inr (0, s0))"

text \<open>
  A run of sensor edges handed to \<open>process_location\<close> one after the other, as
  \<open>hall_sensor_callback\<close> does on each counted edge; the returned values are collected.
\<close>

fun feed_edges :: "motor_direction list \<Rightarrow> motor \<Rightarrow> fault + (s32 list \<times> motor)" where
  "feed_edges [] s = Inr ([], s)"
| "feed_edges (e # es) s =
     (case process_location e s of
        Inl f \<Rightarrow> Inl f
      | Inr (r, s') \<Rightarrow>
        (case feed_edges es s' of
           Inl f \<Rightarrow> Inl f
         | Inr (rs, s'') \<Rightarrow> Inr (r # rs, s'')))"

section \<open>Positions in percent\<close>

text \<open>
  \<open>position100_to_location\<close> and \<open>location_to_position100\<close> compute in single-precision
  \<open>float\<close>. The float type and its operations are parameters of the model: conversion
  from an integer, product, quotient, comparison, and the conversions back to \<open>uint32_t\<close>,
  \<open>int\<close> and \<open>uint8_t\<close>.
\<close>

record 'f float_ops =
  f_of_int :: "int \<Rightarrow> 'f"
  f_mul :: "'f \<Rightarrow> 'f \<Rightarrow> 'f"
  f_div :: "'f \<Rightarrow> 'f \<Rightarrow> 'f"
  f_less :: "'f \<Rightarrow> 'f \<Rightarrow> bool"
  f_to_u32 :: "'f \<Rightarrow> u32"
  f_to_s32 :: "'f \<Rightarrow> s32"
  f_to_u8 :: "'f \<Rightarrow> u8"

text \<open>\<open>position100_to_location\<close>, lines 208 to 212.\<close>

definition position100_to_location :: "'f float_ops \<Rightarrow> 'f \<Rightarrow> motor \<Rightarrow> u32" where
  "position100_to_location F position s =
    (if f_less F (f_of_int F 100) position then max_curtain_length s
     else f_to_u32 F (f_div F (f_mul F position (f_of_int F (uint (max_curtain_length s))))
                              (f_of_int F 100)))"

text \<open>
  \<open>location_to_position100\<close>, lines 215 to 227. In \<open>location > max_curtain_length\<close> the
  \<open>int32_t\<close> is converted to unsigned.
\<close>

definition location_to_position100 :: "'f float_ops \<Rightarrow> motor \<Rightarrow> 'f" where
  "location_to_position100 F s =
    (if calibrating s \<noteq> 0 then f_of_int F 50
     else if location s <s 0 then f_of_int F 0
     else if max_curtain_length s < location s then f_of_int F 100
     else f_div F (f_mul F (f_of_int F 100) (f_of_int F (sint (location s))))
                  (f_of_int F (uint (max_curtain_length s))))"

section \<open>Settings store\<close>

datatype eeprom_var_t =
  MAX_CURTAIN_LEN_EEPROM | FULL_CURTAIN_LEN_EEPROM | MINIMUM_VOLTAGE_EEPROM
  | DEFAULT_SPEED_EEPROM | AUTO_CAL_EEPROM

text \<open>\<open>VirtAddVarTab\<close>, line 146.\<close>

fun VirtAddVarTab :: "eeprom_var_t \<Rightarrow> u16" where
  "VirtAddVarTab MAX_CURTAIN_LEN_EEPROM = 0x5555"
| "VirtAddVarTab FULL_CURTAIN_LEN_EEPROM = 0x6666"
| "VirtAddVarTab MINIMUM_VOLTAGE_EEPROM = 0x7777"
| "VirtAddVarTab DEFAULT_SPEED_EEPROM = 0x8888"
| "VirtAddVarTab AUTO_CAL_EEPROM = 0x9999"

text \<open>
  Modelled from the spec: the storage primitives \<open>load_var(slot) \<rightarrow> (ok, u16)\<close> and
  \<open>store_var(slot, u16)\<close>, in the code \<open>EE_ReadVariable\<close> and \<open>EE_WriteVariable\<close> of
  \<open>eeprom.h\<close>. A read returns 0 and the stored value, or a non-zero status and the
  caller's variable unchanged; a write is appended to the log.
\<close>

definition EE_ReadVariable :: "u16 \<Rightarrow> u16 \<Rightarrow> motor \<Rightarrow> u16 \<times> u16" where
  "EE_ReadVariable VirtAddress Data s =
    (case map_of (eeprom s) VirtAddress of
       Some v \<Rightarrow> (0, v)
     | None \<Rightarrow> (1, Data))"

definition EE_WriteVariable :: "u16 \<Rightarrow> u16 \<Rightarrow> motor \<Rightarrow> motor" where
  "EE_WriteVariable VirtAddress Data s = s\<lparr>eeprom := (VirtAddress, Data) # eeprom s\<rparr>"

text \<open>
  \<open>motor_write_setting\<close>, lines 195 to 206, in the build without \<open>SLIM_BINARY\<close>. The
  local \<open>tmp\<close> is not initialised in the code; its initial content is the parameter
  \<open>tmp0\<close>.
\<close>

definition motor_write_setting :: "u16 \<Rightarrow> eeprom_var_t \<Rightarrow> u16 \<Rightarrow> motor \<Rightarrow> motor" where
  "motor_write_setting tmp0 var val s =
    (if status s = Stopped then
       (let tmp = snd (EE_ReadVariable (VirtAddVarTab var) tmp0 s)
        in if tmp \<noteq> val then EE_WriteVariable (VirtAddVarTab var) val s else s)
     else s)"

section \<open>Command dispatcher\<close>

text \<open>
  Modelled from the spec: the analog inputs \<open>get_voltage()\<close> and \<open>get_motor_current()\<close>,
  defined outside \<open>motor.c\<close>; they return the current readings.
\<close>

definition get_voltage :: "motor \<Rightarrow> u16" where
  "get_voltage s = adc_voltage s"

definition get_motor_current :: "motor \<Rightarrow> u8" where
  "get_motor_current s = adc_motor_current s"

text \<open>\<open>calculate_battery\<close>, lines 537 to 539.\<close>

definition calculate_battery :: u8 where
  "calculate_battery = 0x12"

text \<open>
  \<open>DEG_TO_LOCATION(x)\<close>, line 25: \<open>(GEAR_RATIO * 4 * x / 360)\<close>, a constant expression of
  type \<open>int\<close>.
\<close>

definition DEG_TO_LOCATION :: "board \<Rightarrow> int \<Rightarrow> int" where
  "DEG_TO_LOCATION B x = (GEAR_RATIO B * 4 * x) sdiv 360"

text \<open>The opcodes, lines 91 to 133.\<close>

abbreviation CMD_GO_TO :: u8 where "CMD_GO_TO \<equiv> 0xdd"
abbreviation CMD_UP :: u16 where "CMD_UP \<equiv> 0x0add"
abbreviation CMD_DOWN :: u16 where "CMD_DOWN \<equiv> 0x0aee"
abbreviation CMD_UP_17 :: u16 where "CMD_UP_17 \<equiv> 0x0a0d"
abbreviation CMD_DOWN_17 :: u16 where "CMD_DOWN_17 \<equiv> 0x0a0e"
abbreviation CMD_STOP :: u16 where "CMD_STOP \<equiv> 0x0acc"
abbreviation CMD_OVERRIDE_UP_90 :: u16 where "CMD_OVERRIDE_UP_90 \<equiv> 0xfad1"
abbreviation CMD_OVERRIDE_DOWN_90 :: u16 where "CMD_OVERRIDE_DOWN_90 \<equiv> 0xfad2"
abbreviation CMD_OVERRIDE_UP_6 :: u16 where "CMD_OVERRIDE_UP_6 \<equiv> 0xfad3"
abbreviation CMD_OVERRIDE_DOWN_6 :: u16 where "CMD_OVERRIDE_DOWN_6 \<equiv> 0xfad4"
abbreviation CMD_SET_MAX_CURTAIN_LENGTH :: u16 where "CMD_SET_MAX_CURTAIN_LENGTH \<equiv> 0xfaee"
abbreviation CMD_SET_FULL_CURTAIN_LENGTH :: u16 where "CMD_SET_FULL_CURTAIN_LENGTH \<equiv> 0xfacc"
abbreviation CMD_RESET_CURTAIN_LENGTH :: u16 where "CMD_RESET_CURTAIN_LENGTH \<equiv> 0xfa00"
abbreviation CMD_GET_STATUS :: u16 where "CMD_GET_STATUS \<equiv> 0xcccc"
abbreviation CMD_EXT_GO_TO :: u8 where "CMD_EXT_GO_TO \<equiv> 0x10"
abbreviation CMD_EXT_SET_SPEED :: u8 where "CMD_EXT_SET_SPEED \<equiv> 0x20"
abbreviation CMD_EXT_SET_DEFAULT_SPEED :: u8 where "CMD_EXT_SET_DEFAULT_SPEED \<equiv> 0x30"
abbreviation CMD_EXT_SET_MINIMUM_VOLTAGE :: u8 where "CMD_EXT_SET_MINIMUM_VOLTAGE \<equiv> 0x40"
abbreviation CMD_EXT_SET_LOCATION :: u8 where "CMD_EXT_SET_LOCATION \<equiv> 0x50"
abbreviation CMD_EXT_SET_AUTO_CAL :: u8 where "CMD_EXT_SET_AUTO_CAL \<equiv> 0x60"
abbreviation CMD_EXT_GO_TO_LOCATION :: u8 where "CMD_EXT_GO_TO_LOCATION \<equiv> 0x70"
abbreviation CMD_EXT_SET_SLOWDOWN_FACTOR :: u8 where "CMD_EXT_SET_SLOWDOWN_FACTOR \<equiv> 0x80"
abbreviation CMD_EXT_SET_MIN_SLOWDOWN_SPEED :: u8 where "CMD_EXT_SET_MIN_SLOWDOWN_SPEED \<equiv> 0x90"
abbreviation CMD_EXT_OVERRIDE_DOWN :: u16 where "CMD_EXT_OVERRIDE_DOWN \<equiv> 0xfada"
abbreviation CMD_EXT_GET_LOCATION :: u16 where "CMD_EXT_GET_LOCATION \<equiv> 0xccd0"
abbreviation CMD_EXT_GET_VERSION :: u16 where "CMD_EXT_GET_VERSION \<equiv> 0xccdc"
abbreviation CMD_EXT_GET_STATUS :: u16 where "CMD_EXT_GET_STATUS \<equiv> 0xccde"
abbreviation CMD_EXT_GET_LIMITS :: u16 where "CMD_EXT_GET_LIMITS \<equiv> 0xccdf"
abbreviation CMD_EXT_DEBUG :: u16 where "CMD_EXT_DEBUG \<equiv> 0xccd1"
abbreviation CMD_EXT_SENSOR_DEBUG :: u16 where "CMD_EXT_SENSOR_DEBUG \<equiv> 0xccd2"

text \<open>
  The reply: the caller's \<open>tx_buffer\<close>, a store from index to byte, and the length
  \<open>*tx_bytes\<close>. The caller provides the room the code writes to (indices 0 to 8).
\<close>

record uart_tx =
  tx_buffer :: "nat \<Rightarrow> u8"
  tx_bytes :: u8

text \<open>The seven \<open>case\<close> blocks of \<open>handle_command\<close> that fill a reply frame.\<close>

definition reply_GET_STATUS :: "'f float_ops \<Rightarrow> s32 \<Rightarrow> uart_tx \<Rightarrow> motor \<Rightarrow> uart_tx" where
  "reply_GET_STATUS F rpm tx s =
    (let b = tx_buffer tx;
         b = b(2 := 0xd8);
         b = b(3 := calculate_battery);
         b = b(4 := ucast (get_voltage s div 16));
         b = b(5 := ucast rpm);
         b = b(6 := f_to_u8 F (location_to_position100 F s));
         b = b(7 := b 3 XOR b 4 XOR b 5 XOR b 6)
     in \<lparr>tx_buffer = b, tx_bytes = 8\<rparr>)"

definition reply_EXT_GET_VERSION :: "board \<Rightarrow> uart_tx \<Rightarrow> motor \<Rightarrow> uart_tx" where
  "reply_EXT_GET_VERSION B tx s =
    (let b = tx_buffer tx;
         b = b(0 := 0x00);
         b = b(1 := 0xff);
         b = b(2 := 0xd0);
         b = b(3 := VERSION_MAJOR B);
         b = b(4 := VERSION_MINOR B);
         b = b(5 := ucast (minimum_voltage s));
         b = b(6 := default_speed s);
         b = b(7 := b 3 XOR b 4 XOR b 5 XOR b 6)
     in \<lparr>tx_buffer = b, tx_bytes = 8\<rparr>)"

definition reply_EXT_DEBUG :: "uart_tx \<Rightarrow> motor \<Rightarrow> uart_tx" where
  "reply_EXT_DEBUG tx s =
    (let b = tx_buffer tx;
         b = b(0 := 0x00);
         b = b(1 := 0xff);
         b = b(2 := 0xd2);
         b = b(3 := 0);
         b = b(4 := ucast (dir_error s));
         b = b(5 := ucast (sensor_ticks_while_calibrating_endpoint s));
         b = b(6 := ucast (sensor_ticks_while_stopped s));
         b = b(7 := 0);
         b = b(8 := b 3 XOR b 4 XOR b 5 XOR b 6 XOR b 7)
     in \<lparr>tx_buffer = b, tx_bytes = 9\<rparr>)"

definition reply_EXT_SENSOR_DEBUG :: "uart_tx \<Rightarrow> motor \<Rightarrow> uart_tx" where
  "reply_EXT_SENSOR_DEBUG tx s =
    (let b = tx_buffer tx;
         b = b(0 := 0x00);
         b = b(1 := 0xff);
         b = b(2 := 0xd3);
         b = b(3 := ucast (drop_bit 8 (saved_hall_sensor_1_ticks s)));
         b = b(4 := ucast (saved_hall_sensor_1_ticks s AND 0xff));
         b = b(5 := ucast (drop_bit 8 (saved_hall_sensor_2_ticks s)));
         b = b(6 := ucast (saved_hall_sensor_2_ticks s AND 0xff));
         b = b(7 := 0);
         b = b(8 := b 3 XOR b 4 XOR b 5 XOR b 6 XOR b 7)
     in \<lparr>tx_buffer = b, tx_bytes = 9\<rparr>)"

definition reply_EXT_GET_LOCATION :: "uart_tx \<Rightarrow> motor \<Rightarrow> uart_tx" where
  "reply_EXT_GET_LOCATION tx s =
    (let b = tx_buffer tx;
         b = b(2 := 0xd1);
         b = b(3 := ucast (signed_drop_bit 8 (location s)));
         b = b(4 := ucast (location s AND 0xff));
         b = b(5 := ucast (signed_drop_bit 8 (target_location s)));
         b = b(6 := ucast (target_location s AND 0xff));
         b = b(7 := b 3 XOR b 4 XOR b 5 XOR b 6)
     in \<lparr>tx_buffer = b, tx_bytes = 8\<rparr>)"

definition reply_EXT_GET_STATUS ::
    "board \<Rightarrow> 'f float_ops \<Rightarrow> s32 \<Rightarrow> uart_tx \<Rightarrow> motor \<Rightarrow> uart_tx" where
  "reply_EXT_GET_STATUS B F rpm tx s =
    (let b = tx_buffer tx;
         b = b(2 := 0xda);
         b = b(3 := status_code B (status s));
         b = b(4 := get_motor_current s);
         b = b(5 := ucast rpm);
         pos2 = f_mul F (location_to_position100 F s) (f_of_int F 256);
         pos = f_to_s32 F pos2;
         b = b(6 := ucast (signed_drop_bit 8 pos));
         b = b(7 := ucast (pos AND 0xff));
         b = b(8 := b 3 XOR b 4 XOR b 5 XOR b 6 XOR b 7)
     in \<lparr>tx_buffer = b, tx_bytes = 9\<rparr>)"

definition reply_EXT_GET_LIMITS :: "uart_tx \<Rightarrow> motor \<Rightarrow> uart_tx" where
  "reply_EXT_GET_LIMITS tx s =
    (let b = tx_buffer tx;
         b = b(0 := 0x00);
         b = b(1 := 0xff);
         b = b(2 := 0xdb);
         b = b(3 := calibrating s);
         b = b(4 := ucast (drop_bit 8 (max_curtain_length s)));
         b = b(5 := ucast (max_curtain_length s AND 0xff));
         b = b(6 := ucast (drop_bit 8 (full_curtain_length s)));
         b = b(7 := ucast (full_curtain_length s AND 0xff));
         b = b(8 := b 3 XOR b 4 XOR b 5 XOR b 6 XOR b 7)
     in \<lparr>tx_buffer = b, tx_bytes = 9\<rparr>)"

text \<open>
  The \<open>switch (cmd)\<close> of \<open>handle_command\<close>, lines 551 to 748. The result holds
  \<open>cmd_handled\<close>, the reply and the state. \<open>CMD_SET_FULL_CURTAIN_LENGTH\<close> falls through
  to \<open>CMD_SET_MAX_CURTAIN_LENGTH\<close>. The comparison of \<open>target_location\<close> with
  \<open>max_curtain_length\<close> in \<open>CMD_DOWN_17\<close> is unsigned.
\<close>

definition set_max_curtain_length :: "u16 \<Rightarrow> motor \<Rightarrow> motor" where
  "set_max_curtain_length tmp0 s0 =
    (let s = motor_write_setting tmp0 MAX_CURTAIN_LEN_EEPROM (ucast (location s0)) s0
     in s\<lparr>max_curtain_length := location s\<rparr>)"

definition handle_switch ::
    "board \<Rightarrow> 'f float_ops \<Rightarrow> u16 \<Rightarrow> u16 \<Rightarrow> uart_tx \<Rightarrow> motor
      \<Rightarrow> fault + (u8 \<times> uart_tx \<times> motor)" where
  "handle_switch B F tmp0 cmd tx s =
    (if cmd = CMD_GET_STATUS then
       (case get_rpm B s of
          Inl f \<Rightarrow> Inl f
        | Inr rpm \<Rightarrow> Inr (1, reply_GET_STATUS F rpm tx s, s))
     else if cmd = CMD_UP then
       Inr (1, tx, s\<lparr>target_location := - 1, command := MotorUp\<rparr>)
     else if cmd = CMD_DOWN then
       Inr (1, tx, s\<lparr>target_location := max_curtain_length s, command := MotorDown\<rparr>)
     else if cmd = CMD_UP_17 then
       (let s = s\<lparr>target_location := location s - word_of_int (DEG_TO_LOCATION B 17)\<rparr>;
            s = (if target_location s <s 0 then s\<lparr>target_location := 0\<rparr> else s)
        in Inr (1, tx, s\<lparr>command := MotorUp\<rparr>))
     else if cmd = CMD_DOWN_17 then
       (let s = s\<lparr>target_location := location s + word_of_int (DEG_TO_LOCATION B 17)\<rparr>;
            s = (if max_curtain_length s < target_location s
                 then s\<lparr>target_location := max_curtain_length s\<rparr> else s)
        in Inr (1, tx, s\<lparr>command := MotorDown\<rparr>))
     else if cmd = CMD_STOP then
       Inr (1, tx, s\<lparr>command := Stop\<rparr>)
     else if cmd = CMD_OVERRIDE_UP_90 then
       Inr (1, tx, s\<lparr>target_location := location s - word_of_int (DEG_TO_LOCATION B 90),
                       command := MotorUp\<rparr>)
     else if cmd = CMD_OVERRIDE_DOWN_90 then
       Inr (1, tx, s\<lparr>target_location := location s + word_of_int (DEG_TO_LOCATION B 90),
                       command := MotorDown\<rparr>)
     else if cmd = CMD_OVERRIDE_UP_6 then
       Inr (1, tx, s\<lparr>target_location := location s - word_of_int (DEG_TO_LOCATION B 6),
                       command := MotorUp\<rparr>)
     else if cmd = CMD_OVERRIDE_DOWN_6 then
       Inr (1, tx, s\<lparr>target_location := location s + word_of_int (DEG_TO_LOCATION B 6),
                       command := MotorDown\<rparr>)
     else if cmd = CMD_SET_FULL_CURTAIN_LENGTH then
       (let s = motor_write_setting tmp0 FULL_CURTAIN_LEN_EEPROM (ucast (location s)) s;
            s = s\<lparr>full_curtain_length := location s\<rparr>
        in Inr (1, tx, set_max_curtain_length tmp0 s))
     else if cmd = CMD_SET_MAX_CURTAIN_LENGTH then
       Inr (1, tx, set_max_curtain_length tmp0 s)
     else if cmd = CMD_RESET_CURTAIN_LENGTH then
       (let s = motor_write_setting tmp0 MAX_CURTAIN_LEN_EEPROM
                  (ucast (full_curtain_length s)) s;
            s = s\<lparr>max_curtain_length := full_curtain_length s\<rparr>
        in Inr (1, tx, s\<lparr>calibrating := 1\<rparr>))
     else if cmd = CMD_EXT_OVERRIDE_DOWN then
       Inr (1, tx, s\<lparr>target_location :=
                         location s + word_of_int (DEG_TO_LOCATION B (360 * 5)),
                       command := MotorDown\<rparr>)
     else if cmd = CMD_EXT_GET_VERSION then Inr (1, reply_EXT_GET_VERSION B tx s, s)
     else if cmd = CMD_EXT_DEBUG then Inr (1, reply_EXT_DEBUG tx s, s)
     else if cmd = CMD_EXT_SENSOR_DEBUG then Inr (1, reply_EXT_SENSOR_DEBUG tx s, s)
     else if cmd = CMD_EXT_GET_LOCATION then Inr (1, reply_EXT_GET_LOCATION tx s, s)
     else if cmd = CMD_EXT_GET_STATUS then
       (case get_rpm B s of
          Inl f \<Rightarrow> Inl f
        | Inr rpm \<Rightarrow> Inr (1, reply_EXT_GET_STATUS B F rpm tx s, s))
     else if cmd = CMD_EXT_GET_LIMITS then Inr (1, reply_EXT_GET_LIMITS tx s, s)
     else Inr (0, tx, s))"

text \<open>
  The commands with a parameter, lines 750 to 807, tried in the order of the code when
  the \<open>switch\<close> has not handled the opcode.
\<close>

definition go_to_target :: "s32 \<Rightarrow> motor \<Rightarrow> motor" where
  "go_to_target target s0 =
    (let s = s0\<lparr>target_location := target\<rparr>
     in if target_location s <s location s then s\<lparr>command := MotorUp\<rparr>
        else s\<lparr>command := MotorDown\<rparr>)"

definition handle_parameter ::
    "'f float_ops \<Rightarrow> u16 \<Rightarrow> u8 \<Rightarrow> u8 \<Rightarrow> motor \<Rightarrow> motor" where
  "handle_parameter F tmp0 cmd1 cmd2 s =
    (if cmd1 = CMD_EXT_SET_SPEED then
       (if cmd2 > 1 then
          (let s = s\<lparr>default_speed := cmd2\<rparr>
           in if target_speed s \<noteq> 0 then s\<lparr>target_speed := cmd2\<rparr> else s)
        else s)
     else if cmd1 = CMD_EXT_SET_DEFAULT_SPEED then
       (if cmd2 > 0 then
          (let s = motor_write_setting tmp0 DEFAULT_SPEED_EEPROM (ucast cmd2) s
           in s\<lparr>default_speed := cmd2\<rparr>)
        else s)
     else if cmd1 = CMD_GO_TO then
       (if calibrating s = 0 then
          go_to_target (position100_to_location F (f_of_int F (uint cmd2)) s) s
        else s)
     else if cmd1 AND 0xf0 = CMD_EXT_GO_TO then
       (if calibrating s = 0 then
          (let pos = (push_bit 8 (ucast (cmd1 AND 0x0f)) + ucast cmd2 :: u16);
               pos2 = f_div F (f_of_int F (uint pos)) (f_of_int F 16)
           in go_to_target (position100_to_location F pos2 s) s)
        else s)
     else if cmd1 AND 0xf0 = CMD_EXT_SET_LOCATION then
       (let loc = (push_bit 1 (push_bit 8 (ucast (cmd1 AND 0x0f)) + ucast cmd2) :: u16)
        in s\<lparr>location := ucast loc, calibrating := 0\<rparr>)
     else if cmd1 = CMD_EXT_SET_MINIMUM_VOLTAGE then
       (let s = motor_write_setting tmp0 MINIMUM_VOLTAGE_EEPROM (ucast cmd2) s
        in s\<lparr>minimum_voltage := ucast cmd2\<rparr>)
     else if cmd1 = CMD_EXT_SET_AUTO_CAL then
       (let s = motor_write_setting tmp0 AUTO_CAL_EEPROM (ucast cmd2) s
        in s\<lparr>auto_calibration := cmd2\<rparr>)
     else if cmd1 AND 0xf0 = CMD_EXT_GO_TO_LOCATION then
       go_to_target (push_bit 1 (push_bit 8 (ucast (cmd1 AND 0x0f)) + ucast cmd2)) s
     else if cmd1 = CMD_EXT_SET_SLOWDOWN_FACTOR then s\<lparr>slowdown_factor := cmd2\<rparr>
     else if cmd1 = CMD_EXT_SET_MIN_SLOWDOWN_SPEED then s\<lparr>min_slowdown_speed := cmd2\<rparr>
     else s)"

text \<open>
  \<open>handle_command\<close>, lines 543 to 812. \<open>B\<close>, \<open>F\<close> and \<open>tmp0\<close> are the parameters of the
  model; \<open>rx_buffer\<close>, the reply and \<open>burstindex\<close> are the arguments of the C function.
  The result holds the returned value, the reply and the state.
\<close>

definition handle_command ::
    "board \<Rightarrow> 'f float_ops \<Rightarrow> u16 \<Rightarrow> (nat \<Rightarrow> u8) \<Rightarrow> uart_tx \<Rightarrow> u8 \<Rightarrow> motor
      \<Rightarrow> fault + (u8 \<times> uart_tx \<times> motor)" where
  "handle_command B F tmp0 rx_buffer tx burstindex s =
    (let cmd1 = rx_buffer 3;
         cmd2 = rx_buffer 4;
         cmd = (push_bit 8 (ucast cmd1) + ucast cmd2 :: u16)
     in case handle_switch B F tmp0 cmd tx s of
          Inl f \<Rightarrow> Inl f
        | Inr (cmd_handled, tx', s') \<Rightarrow>
            Inr (1, tx', if cmd_handled = 0 then handle_parameter F tmp0 cmd1 cmd2 s'
                         else s'))"

text \<open>
  The checksum as the spec words it: the XOR of the bytes of a frame from index \<open>lo\<close> up
  to index \<open>hi - 1\<close>.
\<close>

definition xor_bytes :: "(nat \<Rightarrow> u8) \<Rightarrow> nat \<Rightarrow> nat \<Rightarrow> u8" where
  "xor_bytes b lo hi = foldr (\<lambda>i acc. b i XOR acc) [lo..<hi] 0"

section \<open>Concrete instances\<close>

text \<open>
  A board and a motor state for the concrete instances of the theorems below. The board
  has gear ratio 171, a grace period of 2000 ms, stall timeouts of 300 ms and 1000 ms, an
  endpoint calibration period of 1000 ms and the status enum numbered from 0. The motor
  state is at rest at location 0 with a curtain length of 1000 ticks, default speed 18,
  slowdown factor 8 and minimum slowdown speed 5.
\<close>

definition example_board :: board where
  "example_board =
    \<lparr>GEAR_RATIO = 171,
     HALL_SENSOR_GRACE_PERIOD = 2000,
     HALL_SENSOR_TIMEOUT = 300,
     HALL_SENSOR_TIMEOUT_WHILE_STOPPING = 1000,
     ENDPOINT_CALIBRATION_PERIOD = 1000,
     VERSION_MAJOR = 0,
     VERSION_MINOR = 1,
     status_code = (\<lambda>st. case st of Stopped \<Rightarrow> 0 | Moving \<Rightarrow> 1 | Stopping \<Rightarrow> 2
                              | CalibratingEndPoint \<Rightarrow> 3 | Error \<Rightarrow> 4)\<rparr>"

definition example_motor :: motor where
  "example_motor =
    \<lparr>status = Stopped,
     direction = None_dir,
     target_location = 0,
     location = 0,
     full_curtain_length = 1000,
     max_curtain_length = 1000,
     minimum_voltage = 0,
     default_speed = 18,
     target_speed = 0,
     curr_pwm = 0,
     endpoint_calibration_started_timestamp = 0,
     calibrating = 0,
     auto_calibration = 0,
     hall_sensor_1_idle_time = 0,
     hall_sensor_1_ticks = 0,
     hall_sensor_2_ticks = 0,
     hall_sensor_1_interval = 0,
     movement_started_timestamp = 0,
     rotor_position = - 1,
     min_slowdown_speed = 5,
     slowdown_factor = 8,
     command = NoCommand,
     dir_error = 0,
     sensor_ticks_while_stopped = 0,
     sensor_ticks_while_calibrating_endpoint = 0,
     saved_hall_sensor_1_ticks = 0,
     saved_hall_sensor_2_ticks = 0,
     CCR1 = 0,
     CCR4 = 0,
     LOW1_PWM_running = False,
     LOW2_PWM_running = False,
     HIGH_1_GATE = False,
     HIGH_2_GATE = False,
     uwTick = 0,
     eeprom = [],
     adc_voltage = 0,
     adc_motor_current = 0\<rparr>"

text \<open>
  An idealised instance of the float operations, for the concrete instances only: exact
  arithmetic on the rationals, truncating towards zero on conversion to an integer. It
  is not IEEE single precision; the two agree where every intermediate result is exactly
  representable, and the instances below use it only at such inputs. No general theorem
  refers to it.
\<close>

definition exact_float_ops :: "rat float_ops" where
  "exact_float_ops =
    \<lparr>f_of_int = of_int,
     f_mul = (\<lambda>a b. a * b),
     f_div = (\<lambda>a b. a / b),
     f_less = (\<lambda>a b. a < b),
     f_to_u32 = (\<lambda>a. word_of_int (if 0 \<le> a then \<lfloor>a\<rfloor> else \<lceil>a\<rceil>)),
     f_to_s32 = (\<lambda>a. word_of_int (if 0 \<le> a then \<lfloor>a\<rfloor> else \<lceil>a\<rceil>)),
     f_to_u8 = (\<lambda>a. word_of_int (if 0 \<le> a then \<lfloor>a\<rfloor> else \<lceil>a\<rceil>))\<rparr>"

text \<open>
  A received frame with the opcode bytes \<open>cmd1\<close> and \<open>cmd2\<close> at indices 3 and 4 and
  zeros elsewhere, and a zeroed reply buffer.
\<close>

definition rx_frame :: "u8 \<Rightarrow> u8 \<Rightarrow> nat \<Rightarrow> u8" where
  "rx_frame cmd1 cmd2 = (\<lambda>i. 0)(3 := cmd1, 4 := cmd2)"

definition empty_tx :: uart_tx where
  "empty_tx = \<lparr>tx_buffer = (\<lambda>i. 0), tx_bytes = 0\<rparr>"

section \<open>Properties\<close>

text \<open>
  C4. After every call to \<open>motor_stop\<close> both compare registers are 0, both high-side gates
  are de-asserted, the status is \<open>Stopped\<close>, the direction is \<open>None\<close>, \<open>curr_pwm\<close> and
  \<open>target_speed\<close> are 0, and the Hall interval, both tick counters and the idle time are 0.
\<close>

theorem motor_stop_clears:
  "CCR1 (motor_stop s) = 0 \<and> CCR4 (motor_stop s) = 0
   \<and> \<not> HIGH_1_GATE (motor_stop s) \<and> \<not> HIGH_2_GATE (motor_stop s)
   \<and> status (motor_stop s) = Stopped \<and> direction (motor_stop s) = None_dir
   \<and> curr_pwm (motor_stop s) = 0 \<and> target_speed (motor_stop s) = 0
   \<and> hall_sensor_1_interval (motor_stop s) = 0
   \<and> hall_sensor_1_ticks (motor_stop s) = 0
   \<and> hall_sensor_2_ticks (motor_stop s) = 0
   \<and> hall_sensor_1_idle_time (motor_stop s) = 0"
  by (simp add: motor_stop_def)

subsection \<open>Stall supervision\<close>

text \<open>
  C2. Whenever the status is \<open>CalibratingEndPoint\<close> and the tick counter minus
  \<open>endpoint_calibration_started_timestamp\<close> exceeds \<open>ENDPOINT_CALIBRATION_PERIOD\<close>, the
  1 ms handler \<open>motor_stall_check\<close> sets the status to \<open>Stopped\<close>, \<open>calibrating\<close> to false
  and \<open>location\<close> to 0, and changes nothing else.
\<close>

theorem stall_check_ends_calibration:
  assumes "status s = CalibratingEndPoint"
    and "HAL_GetTick s - endpoint_calibration_started_timestamp s
           > ENDPOINT_CALIBRATION_PERIOD B"
  shows "motor_stall_check B s = s\<lparr>status := Stopped, calibrating := 0, location := 0\<rparr>
    \<and> status (motor_stall_check B s) = Stopped
    \<and> calibrating (motor_stall_check B s) = 0
    \<and> location (motor_stall_check B s) = 0"
  using assms by (simp add: motor_stall_check_def)

theorem stall_check_ends_calibration_witness:
  "status (example_motor\<lparr>status := CalibratingEndPoint, location := 7, calibrating := 1,
       endpoint_calibration_started_timestamp := 3000, uwTick := 4001\<rparr>) = CalibratingEndPoint
   \<and> location (motor_stall_check example_board
        (example_motor\<lparr>status := CalibratingEndPoint, location := 7, calibrating := 1,
           endpoint_calibration_started_timestamp := 3000, uwTick := 4001\<rparr>)) = 0
   \<and> calibrating (motor_stall_check example_board
        (example_motor\<lparr>status := CalibratingEndPoint, location := 7, calibrating := 1,
           endpoint_calibration_started_timestamp := 3000, uwTick := 4001\<rparr>)) = 0
   \<and> status (motor_stall_check example_board
        (example_motor\<lparr>status := CalibratingEndPoint, location := 7, calibrating := 1,
           endpoint_calibration_started_timestamp := 3000, uwTick := 4001\<rparr>)) = Stopped"
  using stall_check_ends_calibration [of
      "example_motor\<lparr>status := CalibratingEndPoint, location := 7, calibrating := 1,
         endpoint_calibration_started_timestamp := 3000, uwTick := 4001\<rparr>" example_board]
  by (simp add: example_motor_def example_board_def HAL_GetTick_def)

text \<open>
  C3. For every call to \<open>motor_stopped\<close> with a status other than \<open>Stopped\<close>, \<open>motor_stop\<close>
  runs first, and then the status and direction saved before that call decide: \<open>Moving\<close>
  and \<open>Up\<close> give \<open>CalibratingEndPoint\<close> with the tick counter recorded in
  \<open>endpoint_calibration_started_timestamp\<close>; \<open>Moving\<close> and \<open>Down\<close> give \<open>Error\<close>; \<open>Stopping\<close>
  leaves the status \<open>Stopped\<close>. The cases the claim does not list are covered as well:
  \<open>Moving\<close> with any direction other than \<open>Up\<close> gives \<open>Error\<close>, and every status other than
  \<open>Moving\<close> ends as \<open>motor_stop\<close> leaves it.
\<close>

theorem motor_stopped_transitions:
  assumes "status s \<noteq> Stopped"
  shows "(status s = Moving \<and> direction s = Up \<longrightarrow>
            motor_stopped s = (motor_stop s)\<lparr>status := CalibratingEndPoint,
               sensor_ticks_while_calibrating_endpoint := 0,
               endpoint_calibration_started_timestamp := HAL_GetTick s\<rparr>)
       \<and> (status s = Moving \<and> direction s = Down \<longrightarrow>
            motor_stopped s = (motor_stop s)\<lparr>status := Error\<rparr>)
       \<and> (status s = Stopping \<longrightarrow>
            motor_stopped s = motor_stop s \<and> status (motor_stopped s) = Stopped)
       \<and> (status s = Moving \<and> direction s \<noteq> Up \<longrightarrow>
            motor_stopped s = (motor_stop s)\<lparr>status := Error\<rparr>)
       \<and> (status s \<noteq> Moving \<longrightarrow>
            motor_stopped s = motor_stop s \<and> status (motor_stopped s) = Stopped)"
  using assms by (auto simp add: motor_stopped_def Let_def HAL_GetTick_def motor_stop_def)

theorem motor_stopped_transitions_witness:
  "status (motor_stopped (example_motor\<lparr>status := Moving, direction := Up, uwTick := 2500\<rparr>))
     = CalibratingEndPoint
   \<and> endpoint_calibration_started_timestamp
        (motor_stopped (example_motor\<lparr>status := Moving, direction := Up, uwTick := 2500\<rparr>))
     = 2500
   \<and> status (motor_stopped (example_motor\<lparr>status := Moving, direction := Down\<rparr>)) = Error
   \<and> status (motor_stopped (example_motor\<lparr>status := Stopping, direction := Down\<rparr>)) = Stopped"
  using
    motor_stopped_transitions [of "example_motor\<lparr>status := Moving, direction := Up, uwTick := 2500\<rparr>"]
    motor_stopped_transitions [of "example_motor\<lparr>status := Moving, direction := Down\<rparr>"]
    motor_stopped_transitions [of "example_motor\<lparr>status := Stopping, direction := Down\<rparr>"]
  by (simp add: example_motor_def HAL_GetTick_def motor_stop_def)

subsection \<open>Speed measurement\<close>

lemma sdiv_nonneg_pos: "0 \<le> a \<Longrightarrow> 0 < b \<Longrightarrow> (a::int) sdiv b = a div b"
  by (simp add: signed_divide_int_def sgn_if)

lemma get_rpm_value:
  assumes G: "0 < GEAR_RATIO B"
  shows "\<exists>r. get_rpm B s = Inr r \<and>
   uint r = (if hall_sensor_1_interval s \<noteq> 0
             then 60000 div (GEAR_RATIO B * 2 * uint (hall_sensor_1_interval s)) else 0)"
proof (cases "hall_sensor_1_interval s = 0")
  case True
  then show ?thesis by (simp add: get_rpm_def)
next
  case False
  define q where "q = 60000 div GEAR_RATIO B"
  define i where "i = hall_sensor_1_interval s"
  have q0: "0 \<le> q" using G by (simp add: q_def pos_imp_zdiv_nonneg_iff)
  have "q \<le> 60000 div 1" unfolding q_def using G by (intro zdiv_mono2) auto
  then have q1: "q < 2 ^ 32" by simp
  have uq: "uint (word_of_int q :: u32) = q"
    using q0 q1 by (simp add: uint_word_of_int take_bit_int_eq_self)
  have sd: "(60000::int) sdiv GEAR_RATIO B = q"
    using G by (simp add: sdiv_nonneg_pos q_def)
  have "uint i \<noteq> 0" using False by (simp add: i_def uint_0_iff)
  then have ipos: "0 < uint i" using uint_ge_0 [of i] by linarith
  have r: "get_rpm B s = Inr ((word_of_int q :: u32) div i div 2)"
    using False G by (simp add: get_rpm_def c_div_int_def c_div_u32_def sd i_def)
  have "uint ((word_of_int q :: u32) div i div 2) = q div uint i div 2"
    by (simp add: uint_div uq)
  also have "\<dots> = 60000 div (GEAR_RATIO B * 2 * uint i)"
    using G ipos by (simp add: q_def zdiv_zmult2_eq mult.commute mult.left_commute)
  finally show ?thesis using r False by (simp add: i_def)
qed

lemma rpm_quotient_bound:
  assumes "0 < (g::int)" and "0 \<le> i"
  shows "0 \<le> 60000 div (g * 2 * i) \<and> 60000 div (g * 2 * i) \<le> 60000"
proof (cases "i = 0")
  case True
  then show ?thesis by simp
next
  case False
  with assms have "1 \<le> g" and "1 \<le> i" by simp_all
  then have "1 * 1 \<le> g * i" by (intro mult_mono) simp_all
  then have "1 \<le> g * 2 * i" by simp
  then have "60000 div (g * 2 * i) \<le> 60000 div 1" by (intro zdiv_mono2) auto
  moreover have "0 \<le> 60000 div (g * 2 * i)"
    using \<open>1 \<le> g * 2 * i\<close> by (intro pos_imp_zdiv_nonneg_iff [THEN iffD2]) auto
  ultimately show ?thesis by simp
qed

lemma sint_small:
  assumes "uint (r::s32) \<le> 60000"
  shows "sint r = uint r"
proof -
  have "- (2 ^ 31) \<le> (0::int)" by simp
  also have "0 \<le> uint r" by simp
  finally have "- (2 ^ 31) \<le> uint r" .
  moreover have "uint r < 2 ^ 31" using assms by simp
  ultimately have "signed_take_bit 31 (uint r) = uint r"
    by (rule signed_take_bit_int_eq_self)
  then show ?thesis by (simp add: sint_uint)
qed

text \<open>
  C8. \<open>get_rpm\<close> returns 60000 divided by \<open>GEAR_RATIO * 2 * hall_sensor_1_interval\<close>
  (integer division) whenever the interval is positive, and 0 when it is 0; no division
  meets a zero divisor. \<open>GEAR_RATIO\<close> is a positive constant of the board.
\<close>

theorem get_rpm_formula:
  assumes "0 < GEAR_RATIO B"
  shows "\<exists>r. get_rpm B s = Inr r
     \<and> (hall_sensor_1_interval s \<noteq> 0 \<longrightarrow>
          sint r = 60000 div (GEAR_RATIO B * 2 * uint (hall_sensor_1_interval s)))
     \<and> (hall_sensor_1_interval s = 0 \<longrightarrow> r = 0)
     \<and> get_rpm B s \<noteq> Inl DivisionByZero"
proof -
  from get_rpm_value [OF assms, of s] obtain r where r: "get_rpm B s = Inr r"
    and u: "uint r = (if hall_sensor_1_interval s \<noteq> 0
             then 60000 div (GEAR_RATIO B * 2 * uint (hall_sensor_1_interval s)) else 0)"
    by blast
  have "uint r \<le> 60000"
    using u rpm_quotient_bound [OF assms, of "uint (hall_sensor_1_interval s)"] by simp
  then have "sint r = uint r" by (rule sint_small)
  moreover have "hall_sensor_1_interval s = 0 \<Longrightarrow> r = 0"
    using u by (simp add: uint_0_iff)
  ultimately show ?thesis using r u by auto
qed

theorem get_rpm_formula_witness:
  "0 < GEAR_RATIO example_board
   \<and> get_rpm example_board (example_motor\<lparr>hall_sensor_1_interval := 10\<rparr>) = Inr 17
   \<and> get_rpm example_board example_motor = Inr 0"
  using get_rpm_formula [of example_board "example_motor\<lparr>hall_sensor_1_interval := 10\<rparr>"]
    get_rpm_formula [of example_board example_motor]
  by (simp add: example_board_def example_motor_def get_rpm_def c_div_int_def c_div_u32_def
      signed_divide_int_def)

subsection \<open>Speed regulation\<close>

lemma u8_add_n: "unat k + unat c < 256 \<Longrightarrow> unat (k + c :: u8) = unat k + unat c"
  using unat_add_lem [of k c] by simp

lemma u8_sub_n: "unat k \<le> unat c \<Longrightarrow> unat (c - k :: u8) = unat c - unat k"
  by (simp add: unat_sub word_le_nat_alt)

lemma u8_less_254: "(c::u8) < 254 \<longleftrightarrow> unat c < 254"
  by (simp add: word_less_nat_alt)

lemma u8_greater_1: "(1::u8) < c \<longleftrightarrow> 1 < unat c"
  by (simp add: word_less_nat_alt)

lemma u32_gt_4_gt_2: "(4::u32) < d \<Longrightarrow> 2 < d"
  by (simp add: word_less_nat_alt)

lemma adjust_up_pwm:
  "unat (curr_pwm (adjust_up speed s)) =
     (if speed < ucast (target_speed s) \<and> unat (curr_pwm s) < 254
      then (if ucast (target_speed s) - speed > 2
            then unat (curr_pwm s) + 2 else unat (curr_pwm s) + 1)
      else unat (curr_pwm s))"
  by (simp add: adjust_up_def Let_def u8_less_254 u8_add_n)

lemma adjust_up_target: "target_speed (adjust_up speed s) = target_speed s"
  by (simp add: adjust_up_def Let_def)

lemma adjust_down_pwm:
  "\<not> (unat (curr_pwm s) = 2 \<and> ucast (target_speed s) < speed
       \<and> 4 < speed - ucast (target_speed s))
   \<Longrightarrow> unat (curr_pwm (adjust_down speed s)) =
     (if speed > ucast (target_speed s) \<and> 1 < unat (curr_pwm s)
      then unat (curr_pwm s) - 1 - (if speed - ucast (target_speed s) > 2 then 1 else 0)
           - (if speed - ucast (target_speed s) > 4 then 1 else 0)
      else unat (curr_pwm s))"
  by (auto simp add: adjust_down_def Let_def u8_greater_1 u8_sub_n dest: u32_gt_4_gt_2)

text \<open>
  C5, as stated, fails: from \<open>curr_pwm = 253\<close>, within the range 0 to 254, with the motor
  moving and the measured speed more than 2 below the target, the regulator increments
  twice and leaves \<open>curr_pwm = 255\<close>.
\<close>

theorem adjust_rpm_pwm_255:
  "unat (curr_pwm (example_motor\<lparr>status := Moving, direction := Down, target_speed := 18,
      curr_pwm := 253\<rparr>)) \<le> 254
   \<and> motor_adjust_rpm example_board
       (example_motor\<lparr>status := Moving, direction := Down, target_speed := 18, curr_pwm := 253\<rparr>)
     = Inr (example_motor\<lparr>status := Moving, direction := Down, target_speed := 18,
         curr_pwm := 255, CCR1 := 255\<rparr>)
   \<and> \<not> unat (curr_pwm (example_motor\<lparr>status := Moving, direction := Down, target_speed := 18,
         curr_pwm := 255, CCR1 := 255\<rparr>)) \<le> 254"
  by (simp add: example_motor_def example_board_def motor_adjust_rpm_def get_rpm_def
      adjust_up_def adjust_down_def Let_def)

text \<open>
  C5, amended. Every execution of \<open>motor_adjust_rpm\<close> that starts with \<open>curr_pwm\<close> between
  0 and 254, other than braking from \<open>curr_pwm = 2\<close> with the speed more than 4 above the
  target, returns and moves \<open>curr_pwm\<close> up by at most 2 or down by at most 3 without
  wrapping, so \<open>curr_pwm\<close> stays between 0 and 255; it ends above 254 only when it was 253
  and the speed is more than 2 below the target.
\<close>

theorem adjust_rpm_pwm_range:
  assumes G: "0 < GEAR_RATIO B" and c: "unat (curr_pwm s) \<le> 254"
  shows "\<exists>rpm s'. get_rpm B s = Inr rpm \<and> motor_adjust_rpm B s = Inr s' \<and>
     (\<not> (unat (curr_pwm s) = 2 \<and> ucast (target_speed s) < rpm
          \<and> 4 < rpm - ucast (target_speed s)) \<longrightarrow>
        unat (curr_pwm s') \<le> 255 \<and> unat (curr_pwm s') \<le> unat (curr_pwm s) + 2
        \<and> unat (curr_pwm s) \<le> unat (curr_pwm s') + 3
        \<and> (254 < unat (curr_pwm s') \<longrightarrow> unat (curr_pwm s) = 253
              \<and> rpm < ucast (target_speed s) \<and> 2 < ucast (target_speed s) - rpm))"
proof -
  from get_rpm_value [OF G] obtain rpm where rpm: "get_rpm B s = Inr rpm" by blast
  define t :: u32 where "t = ucast (target_speed s)"
  define s1 where "s1 = adjust_up rpm s"
  define s2 where "s2 = adjust_down rpm s1"
  have t1: "target_speed s1 = target_speed s" by (simp add: s1_def adjust_up_target)
  have res: "motor_adjust_rpm B s
      = Inr (if status s = Moving \<or> status s = Stopping then s2 else s)"
    by (simp add: motor_adjust_rpm_def rpm s1_def s2_def)
  have p1: "unat (curr_pwm s1) =
     (if rpm < t \<and> unat (curr_pwm s) < 254
      then (if t - rpm > 2 then unat (curr_pwm s) + 2 else unat (curr_pwm s) + 1)
      else unat (curr_pwm s))"
    unfolding s1_def t_def by (rule adjust_up_pwm)
  have bound: "unat (curr_pwm s2) \<le> 255 \<and> unat (curr_pwm s2) \<le> unat (curr_pwm s) + 2
        \<and> unat (curr_pwm s) \<le> unat (curr_pwm s2) + 3
        \<and> (254 < unat (curr_pwm s2) \<longrightarrow>
              unat (curr_pwm s) = 253 \<and> rpm < t \<and> 2 < t - rpm)"
    if ns: "\<not> (unat (curr_pwm s) = 2 \<and> t < rpm \<and> 4 < rpm - t)"
  proof (cases "t < rpm")
    case True
    then have "\<not> rpm < t" by simp
    then have e: "unat (curr_pwm s1) = unat (curr_pwm s)" using p1 by simp
    have "\<not> (unat (curr_pwm s1) = 2 \<and> ucast (target_speed s1) < rpm
               \<and> 4 < rpm - ucast (target_speed s1))"
      using ns unfolding e t1 t_def by simp
    then have "unat (curr_pwm s2) =
     (if rpm > t \<and> 1 < unat (curr_pwm s1)
      then unat (curr_pwm s1) - 1 - (if rpm - t > 2 then 1 else 0)
           - (if rpm - t > 4 then 1 else 0)
      else unat (curr_pwm s1))"
      unfolding s2_def t_def t1 [symmetric] by (rule adjust_down_pwm)
    then show ?thesis using c e by (auto split: if_splits)
  next
    case False
    then have "s2 = s1" by (simp add: s2_def adjust_down_def t1 t_def)
    then show ?thesis using p1 c by (auto split: if_splits)
  qed
  show ?thesis using rpm res bound c unfolding t_def by auto
qed

theorem adjust_rpm_pwm_range_witness:
  "0 < GEAR_RATIO example_board
   \<and> unat (curr_pwm (example_motor\<lparr>status := Moving, direction := Up, target_speed := 18,
        curr_pwm := 60\<rparr>)) \<le> 254
   \<and> motor_adjust_rpm example_board
       (example_motor\<lparr>status := Moving, direction := Up, target_speed := 18, curr_pwm := 60\<rparr>)
     = Inr (example_motor\<lparr>status := Moving, direction := Up, target_speed := 18,
         curr_pwm := 62, CCR4 := 62\<rparr>)"
  using adjust_rpm_pwm_range [of example_board
      "example_motor\<lparr>status := Moving, direction := Up, target_speed := 18, curr_pwm := 60\<rparr>"]
  by (simp add: example_motor_def example_board_def motor_adjust_rpm_def get_rpm_def
      adjust_up_def adjust_down_def Let_def)

text \<open>
  The case left out above: braking from \<open>curr_pwm = 2\<close> with the speed more than 4 above
  the target decrements three times, and the 8-bit value wraps from 0 to 255.
\<close>

lemma adjust_rpm_brake_wraps:
  "motor_adjust_rpm example_board
     (example_motor\<lparr>status := Moving, direction := Down, target_speed := 10, curr_pwm := 2,
        hall_sensor_1_interval := 5\<rparr>)
   = Inr (example_motor\<lparr>status := Moving, direction := Down, target_speed := 10,
        curr_pwm := 255, hall_sensor_1_interval := 5, CCR1 := 255\<rparr>)"
proof -
  have e: "(- 1 :: u8) = 255" by simp
  have "ucast (255 :: u8) = (255 :: u32)" by simp
  then have "ucast (- 1 :: u8) = (255 :: u32)" by (simp only: e)
  then show ?thesis
    by (simp add: example_motor_def example_board_def motor_adjust_rpm_def get_rpm_def
        c_div_int_def c_div_u32_def signed_divide_int_def adjust_up_def adjust_down_def Let_def)
qed

subsection \<open>Location tracking\<close>

lemma s32_in_range: "- (2 ^ 31) \<le> k \<Longrightarrow> k < 2 ^ 31 \<Longrightarrow> signed_take_bit 31 (k::int) = k"
  by (rule signed_take_bit_int_eq_self) simp_all

lemma s32_sub:
  "- (2 ^ 31) \<le> sint a - sint b \<Longrightarrow> sint a - sint b < 2 ^ 31
   \<Longrightarrow> sint (a - b :: s32) = sint a - sint b"
  by (simp add: sint_word_diff s32_in_range)

lemma s32_neg: "sint a \<noteq> - (2 ^ 31) \<Longrightarrow> sint (- a :: s32) = - sint a"
  using sint_ge [of a] sint_lt [of a] by (simp add: sint_word_minus s32_in_range)

lemma s32_sless_0: "(x::s32) <s 0 \<longleftrightarrow> sint x < 0"
  by (simp add: word_sless_alt)

lemma abs_s32_sint: "sint x \<noteq> - (2 ^ 31) \<Longrightarrow> sint (abs_s32 x) = \<bar>sint x\<bar>"
  by (simp add: abs_s32_def s32_sless_0 s32_neg)

lemma s32_mul8:
  "- (2 ^ 31) \<le> sint a * 8 \<Longrightarrow> sint a * 8 < 2 ^ 31 \<Longrightarrow> sint (a * 8 :: s32) = sint a * 8"
  using sint_word_mult [of a 8] by (simp add: s32_in_range)

lemma u8_of_int:
  "0 \<le> k \<Longrightarrow> k < uint (t::u8) \<Longrightarrow> uint (word_of_int k :: u8) = k"
  using uint_lt2p [of t] by (simp add: uint_word_of_int take_bit_int_eq_self)

lemma u8_of_int_le:
  "0 \<le> k \<Longrightarrow> k < uint (t::u8) \<Longrightarrow> (word_of_int k :: u8) \<le> t"
  by (simp add: word_le_def u8_of_int)

lemma new_speed_le:
  assumes "new_speed = (if q < uint m then uint m else q)" and "new_speed < uint (t::u8)"
  shows "(word_of_int new_speed :: u8) \<le> t"
proof -
  have m: "0 \<le> uint m" by simp
  have "0 \<le> new_speed"
  proof (cases "q < uint m")
    case True
    then show ?thesis using assms(1) m by simp
  next
    case False
    then have "uint m \<le> new_speed" using assms(1) by simp
    with m show ?thesis by linarith
  qed
  then show ?thesis using assms(2) by (rule u8_of_int_le)
qed

lemma slowdown_keeps:
  assumes "slowdown s = Inr (r, s')"
  shows "r = 0 \<and> target_speed s' \<le> target_speed s \<and> location s' = location s
    \<and> direction s' = direction s \<and> calibrating s' = calibrating s
    \<and> target_location s' = target_location s
    \<and> (status s' = status s \<or> status s' = Stopping)"
proof -
  define q where
    "q = sint (abs_s32 (target_location s - location s) * 8) sdiv uint (slowdown_factor s)"
  define new_speed where
    "new_speed = (if q < uint (min_slowdown_speed s) then uint (min_slowdown_speed s) else q)"
  have le: "new_speed < uint (target_speed s)
      \<Longrightarrow> (word_of_int new_speed :: u8) \<le> target_speed s"
    using new_speed_def by (rule new_speed_le)
  have "r = 0 \<and> (s' = s \<or> s' = s\<lparr>status := Stopping\<rparr>
     \<or> (new_speed < uint (target_speed s)
         \<and> s' = s\<lparr>status := Stopping, target_speed := word_of_int new_speed\<rparr>))"
    using assms unfolding new_speed_def q_def slowdown_def Let_def c_div_int_def
    by (simp split: if_splits)
  then show ?thesis using le by auto
qed

lemma slowdown_total:
  assumes "slowdown_factor s \<noteq> 0 \<or> 0 \<le> sint (abs_s32 (target_location s - location s))"
  shows "\<exists>s'. slowdown s = Inr (0, s')"
  using assms by (auto simp add: slowdown_def Let_def c_div_int_def uint_0_iff)


lemma s32_eq_numeral: "sint (w::s32) = k \<Longrightarrow> w = word_of_int k"
  by auto

lemma slowdown_value:
  assumes dir: "direction s \<noteq> None_dir"
    and D0: "0 \<le> sint (abs_s32 (target_location s - location s))"
    and D1: "sint (abs_s32 (target_location s - location s))
               < uint (target_speed s) * uint (slowdown_factor s) div 8"
  shows "slowdown s = Inr (0,
      if max (sint (abs_s32 (target_location s - location s)) * 8 div uint (slowdown_factor s))
             (uint (min_slowdown_speed s)) < uint (target_speed s)
      then s\<lparr>status := Stopping, target_speed := word_of_int
             (max (sint (abs_s32 (target_location s - location s)) * 8
                     div uint (slowdown_factor s))
                  (uint (min_slowdown_speed s)))\<rparr>
      else s\<lparr>status := Stopping\<rparr>)"
proof -
  define d where "d = abs_s32 (target_location s - location s)"
  define t where "t = uint (target_speed s)"
  define f where "f = uint (slowdown_factor s)"
  have t: "0 \<le> t" "t \<le> 255" using uint_lt2p [of "target_speed s"] by (simp_all add: t_def)
  have f: "0 \<le> f" "f \<le> 255" using uint_lt2p [of "slowdown_factor s"] by (simp_all add: f_def)
  have p0: "0 \<le> t * f" using t f by simp
  have "t * f \<le> 255 * 255" using t f by (intro mult_mono) simp_all
  then have p1: "t * f div 8 \<le> 8128" by simp
  have sd: "t * f sdiv 8 = t * f div 8"
    using p0 by (simp add: sdiv_nonneg_pos)
  have lt: "sint d < t * f div 8" using D1 by (simp add: d_def t_def f_def)
  have ge: "0 \<le> sint d" using D0 by (simp add: d_def)
  have fpos: "0 < f"
  proof (rule ccontr)
    assume "\<not> 0 < f"
    with f have "f = 0" by simp
    with lt ge show False by simp
  qed
  have m8: "sint (d * 8) = sint d * 8"
    using lt ge p1 by (intro s32_mul8) simp_all
  have q: "sint (d * 8) sdiv f = sint d * 8 div f"
    using ge fpos by (simp add: m8 sdiv_nonneg_pos)
  show ?thesis
    unfolding slowdown_def Let_def c_div_int_def
    using dir lt fpos
    by (simp add: d_def [symmetric] t_def [symmetric] f_def [symmetric] sd q max_def not_less)
qed

lemma process_location_mono:
  assumes "process_location d s = Inr (r, s')"
  shows "target_speed s' \<le> target_speed s"
  using assms slowdown_keeps [of "s\<lparr>location := location s - 1\<rparr>" r s']
    slowdown_keeps [of "s\<lparr>location := location s + 1\<rparr>" r s'] slowdown_keeps [of s r s']
  by (auto simp add: process_location_def Let_def motor_stop_def split: if_splits)


lemma process_location_Up_stop:
  assumes "calibrating s = 0" and "direction s = Up" and "target_location s \<noteq> - 1"
    and "location s - 1 - 1 \<le>s target_location s"
  shows "process_location Up s = Inr (1, motor_stop (s\<lparr>location := location s - 1\<rparr>))"
  using assms by (simp add: process_location_def Let_def)

lemma process_location_Up_location:
  assumes "calibrating s = 0" and "process_location Up s = Inr (r, s')"
  shows "location s' = location s - 1"
  using assms slowdown_keeps [of "s\<lparr>location := location s - 1\<rparr>" r s']
  by (auto simp add: process_location_def Let_def motor_stop_def split: if_splits)

lemma process_location_total:
  assumes "slowdown_factor s \<noteq> 0
     \<or> 0 \<le> sint (abs_s32 (target_location s
            - (if d = Up then location s - 1 else if d = Down then location s + 1
               else location s)))"
  shows "\<exists>r s'. process_location d s = Inr (r, s')"
  using assms slowdown_total [of "s\<lparr>location := location s - 1\<rparr>"]
    slowdown_total [of "s\<lparr>location := location s + 1\<rparr>"] slowdown_total [of s]
  by (auto simp add: process_location_def Let_def split: if_splits)

lemma process_location_Up_continue:
  assumes cal: "calibrating s = 0" and dir: "direction s = Up"
    and tgt: "sint (target_location s) = 200"
    and loc: "sint (location s) = 203 + int n" and n: "n \<le> 1000"
  shows "\<exists>s'. process_location Up s = Inr (0, s') \<and> calibrating s' = 0 \<and> direction s' = Up
     \<and> target_location s' = target_location s \<and> sint (location s') = 202 + int n
     \<and> (status s' = status s \<or> status s' = Stopping)"
proof -
  define s1 where "s1 = s\<lparr>location := location s - 1\<rparr>"
  have l1: "sint (location s - 1) = 202 + int n"
    using loc n s32_sub [of "location s" 1] by simp
  have l2: "sint (location s - 1 - 1) = 201 + int n"
    using l1 n s32_sub [of "location s - 1" 1] by simp
  have nostop: "\<not> location s - 1 - 1 \<le>s target_location s"
    using l2 tgt by (simp add: word_sle_eq)
  have d: "sint (target_location s - (location s - 1)) = - 2 - int n"
    using l1 tgt n s32_sub [of "target_location s" "location s - 1"] by simp
  then have "sint (abs_s32 (target_location s - (location s - 1))) = 2 + int n"
    using n abs_s32_sint [of "target_location s - (location s - 1)"] by simp
  then have "0 \<le> sint (abs_s32 (target_location s1 - location s1))"
    by (simp add: s1_def)
  then obtain s' where s': "slowdown s1 = Inr (0, s')"
    using slowdown_total [of s1] by blast
  have pl: "process_location Up s = slowdown s1"
    using cal nostop by (simp add: process_location_def Let_def s1_def)
  show ?thesis
    using slowdown_keeps [OF s'] s' pl cal dir l1 by (auto simp add: s1_def)
qed

lemma feed_up_run:
  assumes "calibrating s = 0" and "direction s = Up" and "sint (target_location s) = 200"
    and "sint (location s) = 202 + int n" and "n \<le> 1000"
  shows "\<exists>s1. feed_edges (replicate n Up) s = Inr (replicate n 0, s1)
     \<and> calibrating s1 = 0 \<and> direction s1 = Up \<and> target_location s1 = target_location s
     \<and> sint (location s1) = 202 \<and> (status s1 = status s \<or> status s1 = Stopping)"
  using assms
proof (induction n arbitrary: s)
  case 0
  then show ?case by simp
next
  case (Suc n)
  from Suc.prems have "sint (location s) = 203 + int n" and "n \<le> 1000" by simp_all
  with Suc.prems obtain s' where
    s': "process_location Up s = Inr (0, s')" "calibrating s' = 0" "direction s' = Up"
      "target_location s' = target_location s" "sint (location s') = 202 + int n"
      "status s' = status s \<or> status s' = Stopping"
    using process_location_Up_continue [of s n] by blast
  with Suc.prems \<open>n \<le> 1000\<close> obtain s1 where
    s1: "feed_edges (replicate n Up) s' = Inr (replicate n 0, s1)"
      "calibrating s1 = 0" "direction s1 = Up" "target_location s1 = target_location s'"
      "sint (location s1) = 202" "status s1 = status s' \<or> status s1 = Stopping"
    using Suc.IH [of s'] by auto
  show ?case using s' s1 by auto
qed


lemma process_location_to_slowdown:
  assumes "calibrating s = 0"
    and "loc = (if d = Up then location s - 1 else if d = Down then location s + 1
                else location s)"
    and "\<not> (d = Up \<and> direction s = Up \<and> target_location s \<noteq> - 1
            \<and> loc - 1 \<le>s target_location s)"
    and "\<not> (d = Down \<and> direction s = Down \<and> target_location s \<le>s loc + 1)"
  shows "process_location d s = slowdown (s\<lparr>location := loc\<rparr>)"
  using assms by (cases d) (auto simp add: process_location_def Let_def)

text \<open>
  C1. For every call to \<open>process_location(Up)\<close> with \<open>calibrating\<close> false that returns,
  \<open>location\<close> has been decremented by 1; the call returns unless the slowdown block divides
  by a zero \<open>slowdown_factor\<close>, which needs a distance that wrapped to a negative value.
  If \<open>direction\<close> is \<open>Up\<close>,
  \<open>target_location\<close> is not -1 and the decremented location minus 1 is at most
  \<open>target_location\<close>, \<open>motor_stop\<close> is called and 1 is returned. Starting from location
  500 with target 200, direction \<open>Up\<close> and status \<open>Moving\<close>, the first 298 upward edges
  return 0 and bring the location to 202; the next edge calls \<open>motor_stop\<close> and returns 1
  with the location at 201 and the status \<open>Stopped\<close>.
\<close>

theorem process_location_up_stop:
  assumes cal: "calibrating s = 0"
  shows "(process_location Up s = Inr (r, s') \<longrightarrow> location s' = location s - 1)
   \<and> (slowdown_factor s \<noteq> 0
        \<or> 0 \<le> sint (abs_s32 (target_location s - (location s - 1)))
       \<longrightarrow> (\<exists>r' s''. process_location Up s = Inr (r', s'')))
   \<and> (direction s = Up \<and> target_location s \<noteq> - 1
        \<and> location s - 1 - 1 \<le>s target_location s
       \<longrightarrow> process_location Up s = Inr (1, motor_stop (s\<lparr>location := location s - 1\<rparr>)))
   \<and> (location s = 500 \<and> target_location s = 200 \<and> direction s = Up \<and> status s = Moving
       \<longrightarrow> (\<exists>s1. feed_edges (replicate 298 Up) s = Inr (replicate 298 0, s1)
              \<and> location s1 = 202 \<and> (status s1 = Moving \<or> status s1 = Stopping)
              \<and> process_location Up s1 = Inr (1, motor_stop (s1\<lparr>location := 201\<rparr>))
              \<and> status (motor_stop (s1\<lparr>location := 201\<rparr>)) = Stopped
              \<and> location (motor_stop (s1\<lparr>location := 201\<rparr>)) = 201))"
proof (intro conjI)
  show "process_location Up s = Inr (r, s') \<longrightarrow> location s' = location s - 1"
    using process_location_Up_location [OF cal] by blast
next
  show "slowdown_factor s \<noteq> 0
        \<or> 0 \<le> sint (abs_s32 (target_location s - (location s - 1)))
       \<longrightarrow> (\<exists>r' s''. process_location Up s = Inr (r', s''))"
    using process_location_total [of s Up] by auto
next
  show "direction s = Up \<and> target_location s \<noteq> - 1
        \<and> location s - 1 - 1 \<le>s target_location s
       \<longrightarrow> process_location Up s = Inr (1, motor_stop (s\<lparr>location := location s - 1\<rparr>))"
    using process_location_Up_stop [OF cal] by blast
next
  show "location s = 500 \<and> target_location s = 200 \<and> direction s = Up \<and> status s = Moving
       \<longrightarrow> (\<exists>s1. feed_edges (replicate 298 Up) s = Inr (replicate 298 0, s1)
              \<and> location s1 = 202 \<and> (status s1 = Moving \<or> status s1 = Stopping)
              \<and> process_location Up s1 = Inr (1, motor_stop (s1\<lparr>location := 201\<rparr>))
              \<and> status (motor_stop (s1\<lparr>location := 201\<rparr>)) = Stopped
              \<and> location (motor_stop (s1\<lparr>location := 201\<rparr>)) = 201)"
  proof
    assume "location s = 500 \<and> target_location s = 200 \<and> direction s = Up
      \<and> status s = Moving"
    then have a: "sint (location s) = 202 + int 298" "sint (target_location s) = 200"
        "direction s = Up" "status s = Moving" "target_location s = 200"
      by simp_all
    from feed_up_run [OF cal a(3) a(2) a(1)] obtain s1 where
      s1: "feed_edges (replicate 298 Up) s = Inr (replicate 298 0, s1)"
        "calibrating s1 = 0" "direction s1 = Up" "target_location s1 = target_location s"
        "sint (location s1) = 202" "status s1 = status s \<or> status s1 = Stopping"
      by auto
    have l: "location s1 = 202" using s32_eq_numeral [OF s1(5)] by simp
    have "process_location Up s1 = Inr (1, motor_stop (s1\<lparr>location := location s1 - 1\<rparr>))"
      using s1 a by (intro process_location_Up_stop) (simp_all add: l)
    then show "\<exists>s1. feed_edges (replicate 298 Up) s = Inr (replicate 298 0, s1)
              \<and> location s1 = 202 \<and> (status s1 = Moving \<or> status s1 = Stopping)
              \<and> process_location Up s1 = Inr (1, motor_stop (s1\<lparr>location := 201\<rparr>))
              \<and> status (motor_stop (s1\<lparr>location := 201\<rparr>)) = Stopped
              \<and> location (motor_stop (s1\<lparr>location := 201\<rparr>)) = 201"
      using s1 a l by (auto simp add: motor_stop_def)
  qed
qed

theorem process_location_up_stop_witness:
  "calibrating (example_motor\<lparr>status := Moving, direction := Up, target_speed := 18,
       location := 500, target_location := 200\<rparr>) = 0
   \<and> (\<exists>s1. feed_edges (replicate 298 Up)
              (example_motor\<lparr>status := Moving, direction := Up, target_speed := 18,
                 location := 500, target_location := 200\<rparr>) = Inr (replicate 298 0, s1)
         \<and> location s1 = 202 \<and> (status s1 = Moving \<or> status s1 = Stopping)
         \<and> process_location Up s1 = Inr (1, motor_stop (s1\<lparr>location := 201\<rparr>))
         \<and> status (motor_stop (s1\<lparr>location := 201\<rparr>)) = Stopped
         \<and> location (motor_stop (s1\<lparr>location := 201\<rparr>)) = 201)
   \<and> process_location Up
        (example_motor\<lparr>status := Moving, direction := Up, target_speed := 18,
           location := 202, target_location := 200\<rparr>)
      = Inr (1, motor_stop (example_motor\<lparr>status := Moving, direction := Up,
           target_speed := 18, location := 201, target_location := 200\<rparr>))"
proof (intro conjI)
  show c: "calibrating (example_motor\<lparr>status := Moving, direction := Up, target_speed := 18,
       location := 500, target_location := 200\<rparr>) = 0"
    by (simp add: example_motor_def)
  show "\<exists>s1. feed_edges (replicate 298 Up)
              (example_motor\<lparr>status := Moving, direction := Up, target_speed := 18,
                 location := 500, target_location := 200\<rparr>) = Inr (replicate 298 0, s1)
         \<and> location s1 = 202 \<and> (status s1 = Moving \<or> status s1 = Stopping)
         \<and> process_location Up s1 = Inr (1, motor_stop (s1\<lparr>location := 201\<rparr>))
         \<and> status (motor_stop (s1\<lparr>location := 201\<rparr>)) = Stopped
         \<and> location (motor_stop (s1\<lparr>location := 201\<rparr>)) = 201"
    by (rule process_location_up_stop [OF c, THEN conjunct2, THEN conjunct2, THEN conjunct2,
          THEN mp]) (simp add: example_motor_def)
  have c': "calibrating (example_motor\<lparr>status := Moving, direction := Up, target_speed := 18,
       location := 202, target_location := 200\<rparr>) = 0"
    by (simp add: example_motor_def)
  have "process_location Up
        (example_motor\<lparr>status := Moving, direction := Up, target_speed := 18,
           location := 202, target_location := 200\<rparr>)
      = Inr (1, motor_stop (example_motor\<lparr>status := Moving, direction := Up,
           target_speed := 18, location := 202, target_location := 200,
           location := location (example_motor\<lparr>status := Moving, direction := Up,
              target_speed := 18, location := 202, target_location := 200\<rparr>) - 1\<rparr>))"
    by (rule process_location_up_stop [OF c', THEN conjunct2, THEN conjunct2, THEN conjunct1,
          THEN mp]) (simp add: example_motor_def word_sle_eq)
  then show "process_location Up
        (example_motor\<lparr>status := Moving, direction := Up, target_speed := 18,
           location := 202, target_location := 200\<rparr>)
      = Inr (1, motor_stop (example_motor\<lparr>status := Moving, direction := Up,
           target_speed := 18, location := 201, target_location := 200\<rparr>))"
    by (simp add: example_motor_def)
qed

text \<open>
  C7, as stated, fails on its second part. With \<open>calibrating\<close> set, an edge at location 990
  with target 1000, direction \<open>Down\<close> and \<open>target_speed\<close> 18 (distance 10, below
  \<open>18 * 8 / 8\<close>) changes nothing: the status stays \<open>Moving\<close> and \<open>target_speed\<close> stays 18.
  With \<open>calibrating\<close> clear, a \<open>Down\<close> edge at location 28 with target 30 and
  \<open>target_speed\<close> 20 (distance 1 after the step) stops the motor: the status becomes
  \<open>Stopped\<close>, not \<open>Stopping\<close>, and \<open>target_speed\<close> becomes 0.
\<close>

theorem process_location_no_slowdown:
  "direction (example_motor\<lparr>status := Moving, direction := Down, calibrating := 1,
       target_speed := 18, location := 990, target_location := 1000\<rparr>) \<noteq> None_dir
   \<and> sint (abs_s32 (1000 - 990)) < uint (18 :: u8) * uint (8 :: u8) div 8
   \<and> process_location Down
        (example_motor\<lparr>status := Moving, direction := Down, calibrating := 1,
           target_speed := 18, location := 990, target_location := 1000\<rparr>)
      = Inr (0, example_motor\<lparr>status := Moving, direction := Down, calibrating := 1,
           target_speed := 18, location := 990, target_location := 1000\<rparr>)
   \<and> direction (example_motor\<lparr>status := Moving, direction := Down, target_speed := 20,
       location := 28, target_location := 30\<rparr>) \<noteq> None_dir
   \<and> sint (abs_s32 (30 - 29)) < uint (20 :: u8) * uint (8 :: u8) div 8
   \<and> process_location Down
        (example_motor\<lparr>status := Moving, direction := Down, target_speed := 20,
           location := 28, target_location := 30\<rparr>)
      = Inr (1, example_motor\<lparr>status := Stopped, direction := None_dir, target_speed := 0,
           location := 29, target_location := 30\<rparr>)"
  by (simp add: example_motor_def process_location_def motor_stop_def abs_s32_def Let_def
      word_sle_eq word_sless_alt)

text \<open>
  C7, amended. \<open>process_location\<close> never increases \<open>target_speed\<close>: after every call that
  returns, \<open>target_speed\<close> is at most what it was, and the call returns unless the slowdown
  block divides by a zero \<open>slowdown_factor\<close>, which needs a distance that wrapped to a
  negative value. When \<open>calibrating\<close> is false, the edge does not stop the motor at the
  target (it is not an \<open>Up\<close> edge with \<open>direction\<close> \<open>Up\<close>, a target other than -1 and
  \<open>location - 1 \<le> target_location\<close>, nor a \<open>Down\<close> edge with \<open>direction\<close> \<open>Down\<close> and
  \<open>location + 1 \<ge> target_location\<close>, \<open>location\<close> being the location stepped by the edge),
  \<open>direction\<close> is not \<open>None\<close> and the distance \<open>|target_location - location|\<close> from the
  stepped location is below \<open>target_speed * slowdown_factor / 8\<close>, the call returns 0, the
  status becomes \<open>Stopping\<close> and \<open>target_speed\<close> becomes
  \<open>max (distance * 8 / slowdown_factor) min_slowdown_speed\<close> if that is below the current
  \<open>target_speed\<close>, and stays otherwise; nothing else but the location changes.
\<close>

theorem process_location_slowdown:
  "(process_location d s = Inr (r, s') \<longrightarrow> target_speed s' \<le> target_speed s)
   \<and> (slowdown_factor s \<noteq> 0
        \<or> 0 \<le> sint (abs_s32 (target_location s
              - (if d = Up then location s - 1 else if d = Down then location s + 1
                 else location s)))
       \<longrightarrow> (\<exists>r' s''. process_location d s = Inr (r', s'')))
   \<and> (calibrating s = 0 \<and> direction s \<noteq> None_dir
        \<and> loc = (if d = Up then location s - 1 else if d = Down then location s + 1
                  else location s)
        \<and> \<not> (d = Up \<and> direction s = Up \<and> target_location s \<noteq> - 1
               \<and> loc - 1 \<le>s target_location s)
        \<and> \<not> (d = Down \<and> direction s = Down \<and> target_location s \<le>s loc + 1)
        \<and> D = sint (abs_s32 (target_location s - loc))
        \<and> 0 \<le> D \<and> D < uint (target_speed s) * uint (slowdown_factor s) div 8
        \<and> N = max (D * 8 div uint (slowdown_factor s)) (uint (min_slowdown_speed s))
       \<longrightarrow> (\<exists>s''. process_location d s = Inr (0, s'')
             \<and> s'' = (if N < uint (target_speed s)
                       then s\<lparr>location := loc, status := Stopping,
                               target_speed := word_of_int N\<rparr>
                       else s\<lparr>location := loc, status := Stopping\<rparr>)
             \<and> status s'' = Stopping \<and> location s'' = loc
             \<and> uint (target_speed s'') = (if N < uint (target_speed s) then N
                                           else uint (target_speed s))))"
proof (intro conjI)
  show "process_location d s = Inr (r, s') \<longrightarrow> target_speed s' \<le> target_speed s"
    by (auto dest: process_location_mono)
next
  show "slowdown_factor s \<noteq> 0
        \<or> 0 \<le> sint (abs_s32 (target_location s
              - (if d = Up then location s - 1 else if d = Down then location s + 1
                 else location s)))
       \<longrightarrow> (\<exists>r' s''. process_location d s = Inr (r', s''))"
    using process_location_total [of s d] by blast
next
  show "calibrating s = 0 \<and> direction s \<noteq> None_dir
        \<and> loc = (if d = Up then location s - 1 else if d = Down then location s + 1
                  else location s)
        \<and> \<not> (d = Up \<and> direction s = Up \<and> target_location s \<noteq> - 1
               \<and> loc - 1 \<le>s target_location s)
        \<and> \<not> (d = Down \<and> direction s = Down \<and> target_location s \<le>s loc + 1)
        \<and> D = sint (abs_s32 (target_location s - loc))
        \<and> 0 \<le> D \<and> D < uint (target_speed s) * uint (slowdown_factor s) div 8
        \<and> N = max (D * 8 div uint (slowdown_factor s)) (uint (min_slowdown_speed s))
       \<longrightarrow> (\<exists>s''. process_location d s = Inr (0, s'')
             \<and> s'' = (if N < uint (target_speed s)
                       then s\<lparr>location := loc, status := Stopping,
                               target_speed := word_of_int N\<rparr>
                       else s\<lparr>location := loc, status := Stopping\<rparr>)
             \<and> status s'' = Stopping \<and> location s'' = loc
             \<and> uint (target_speed s'') = (if N < uint (target_speed s) then N
                                           else uint (target_speed s)))"
  proof
    assume a: "calibrating s = 0 \<and> direction s \<noteq> None_dir
        \<and> loc = (if d = Up then location s - 1 else if d = Down then location s + 1
                  else location s)
        \<and> \<not> (d = Up \<and> direction s = Up \<and> target_location s \<noteq> - 1
               \<and> loc - 1 \<le>s target_location s)
        \<and> \<not> (d = Down \<and> direction s = Down \<and> target_location s \<le>s loc + 1)
        \<and> D = sint (abs_s32 (target_location s - loc))
        \<and> 0 \<le> D \<and> D < uint (target_speed s) * uint (slowdown_factor s) div 8
        \<and> N = max (D * 8 div uint (slowdown_factor s)) (uint (min_slowdown_speed s))"
    define s1 where "s1 = s\<lparr>location := loc\<rparr>"
    from a have a1: "calibrating s = 0"
      and a2: "loc = (if d = Up then location s - 1 else if d = Down then location s + 1
                  else location s)"
      and a3: "\<not> (d = Up \<and> direction s = Up \<and> target_location s \<noteq> - 1
               \<and> loc - 1 \<le>s target_location s)"
      and a4: "\<not> (d = Down \<and> direction s = Down \<and> target_location s \<le>s loc + 1)"
      by blast+
    have p: "process_location d s = slowdown s1"
      unfolding s1_def using a1 a2 a3 a4 by (rule process_location_to_slowdown)
    from a have dir: "direction s \<noteq> None_dir"
      and aD: "D = sint (abs_s32 (target_location s - loc))"
      and D0: "0 \<le> D"
      and D1: "D < uint (target_speed s) * uint (slowdown_factor s) div 8"
      and aN: "N = max (D * 8 div uint (slowdown_factor s)) (uint (min_slowdown_speed s))"
      by blast+
    have N0: "0 \<le> N" unfolding aN by (simp add: le_max_iff_disj)
    have e: "sint (abs_s32 (target_location s1 - location s1)) = D"
      by (simp add: s1_def aD)
    have v0: "slowdown s1 = Inr (0,
      if max (sint (abs_s32 (target_location s1 - location s1)) * 8
                div uint (slowdown_factor s1))
             (uint (min_slowdown_speed s1)) < uint (target_speed s1)
      then s1\<lparr>status := Stopping, target_speed := word_of_int
             (max (sint (abs_s32 (target_location s1 - location s1)) * 8
                     div uint (slowdown_factor s1))
                  (uint (min_slowdown_speed s1)))\<rparr>
      else s1\<lparr>status := Stopping\<rparr>)"
    proof (rule slowdown_value)
      show "direction s1 \<noteq> None_dir" using dir by (simp add: s1_def)
      show "0 \<le> sint (abs_s32 (target_location s1 - location s1))"
        unfolding e by (rule D0)
      show "sint (abs_s32 (target_location s1 - location s1))
              < uint (target_speed s1) * uint (slowdown_factor s1) div 8"
        unfolding e using D1 by (simp add: s1_def)
    qed
    have f: "slowdown_factor s1 = slowdown_factor s"
      "min_slowdown_speed s1 = min_slowdown_speed s" "target_speed s1 = target_speed s"
      by (simp_all add: s1_def)
    have v: "slowdown s1 = Inr (0,
        if N < uint (target_speed s)
        then s1\<lparr>status := Stopping, target_speed := word_of_int N\<rparr>
        else s1\<lparr>status := Stopping\<rparr>)"
      using v0 unfolding e f aN [symmetric] .
    have u: "N < uint (target_speed s) \<Longrightarrow> uint (word_of_int N :: u8) = N"
      using N0 by (rule u8_of_int)
    show "\<exists>s''. process_location d s = Inr (0, s'')
             \<and> s'' = (if N < uint (target_speed s)
                       then s\<lparr>location := loc, status := Stopping,
                               target_speed := word_of_int N\<rparr>
                       else s\<lparr>location := loc, status := Stopping\<rparr>)
             \<and> status s'' = Stopping \<and> location s'' = loc
             \<and> uint (target_speed s'') = (if N < uint (target_speed s) then N
                                           else uint (target_speed s))"
      using p v u by (simp add: s1_def)
  qed
qed

theorem process_location_slowdown_witness:
  "process_location Down
       (example_motor\<lparr>status := Moving, direction := Down, target_speed := 20,
          location := 14, target_location := 30\<rparr>)
     = Inr (0, example_motor\<lparr>status := Stopping, direction := Down, target_speed := 15,
          location := 15, target_location := 30\<rparr>)
   \<and> process_location Down
       (example_motor\<lparr>status := Stopping, direction := Down, target_speed := 20,
          location := 25, target_location := 30\<rparr>)
     = Inr (0, example_motor\<lparr>status := Stopping, direction := Down, target_speed := 5,
          location := 26, target_location := 30\<rparr>)"
  using process_location_slowdown [of Down
      "example_motor\<lparr>status := Moving, direction := Down, target_speed := 20,
          location := 14, target_location := 30\<rparr>" 0
      "example_motor\<lparr>status := Stopping, direction := Down, target_speed := 15,
          location := 15, target_location := 30\<rparr>" 15 15 15]
    process_location_slowdown [of Down
      "example_motor\<lparr>status := Stopping, direction := Down, target_speed := 20,
          location := 25, target_location := 30\<rparr>" 0
      "example_motor\<lparr>status := Stopping, direction := Down, target_speed := 5,
          location := 26, target_location := 30\<rparr>" 26 4 5]
  by (simp add: example_motor_def abs_s32_def word_sle_eq word_sless_alt)

subsection \<open>Command dispatcher\<close>

lemma cmd_unat:
  "unat (push_bit 8 (ucast (a::u8)) + ucast (b::u8) :: u16) = unat a * 256 + unat b"
proof -
  have "unat a < 2 ^ LENGTH(8)" and "unat b < 2 ^ LENGTH(8)" by (rule unsigned_less)+
  then have a: "unat a < 256" and b: "unat b < 256" by simp_all
  have ua: "unat (ucast a :: u16) = unat a"
    using a by (simp add: unsigned_ucast_eq take_bit_nat_eq_self)
  have ub: "unat (ucast b :: u16) = unat b"
    using b by (simp add: unsigned_ucast_eq take_bit_nat_eq_self)
  have p: "unat (push_bit 8 (ucast a :: u16)) = unat a * 256"
    using a by (simp add: push_bit_eq_mult unat_word_ariths ua)
  have "unat a * 256 + unat b < 65536" using a b by simp
  then show ?thesis
    using p ub by (simp add: unat_word_ariths)
qed

lemma cmd_high_byte:
  assumes "push_bit 8 (ucast (a::u8)) + ucast (b::u8) = (c::u16)"
  shows "unat a = unat c div 256"
proof -
  have "unat b < 2 ^ LENGTH(8)" by (rule unsigned_less)
  then have "unat b < 256" by simp
  moreover have "unat c = unat a * 256 + unat b" using assms cmd_unat [of a b] by simp
  ultimately show ?thesis by simp
qed

lemma u8_neq: "(a::u8) \<noteq> numeral n \<Longrightarrow> unat a \<noteq> unat (numeral n :: u8)"
  by (simp add: word_unat_eq_iff)

lemma handle_switch_default:
  assumes "(cmd1::u8) \<noteq> 0x0a" and "cmd1 \<noteq> 0xfa" and "cmd1 \<noteq> 0xcc"
  shows "handle_switch B F tmp0 (push_bit 8 (ucast cmd1) + ucast (cmd2::u8)) tx s
    = Inr (0, tx, s)"
proof -
  define cmd :: u16 where "cmd = push_bit 8 (ucast cmd1) + ucast cmd2"
  have ne: "unat cmd1 \<noteq> 10" "unat cmd1 \<noteq> 250" "unat cmd1 \<noteq> 204"
    using assms u8_neq [of cmd1] by fastforce+
  have h: "unat cmd1 = unat c div 256" if "cmd = c" for c
    using that cmd_high_byte [of cmd1 cmd2 c] by (simp add: cmd_def)
  have "cmd \<notin> {CMD_GET_STATUS, CMD_UP, CMD_DOWN, CMD_UP_17, CMD_DOWN_17, CMD_STOP,
      CMD_OVERRIDE_UP_90, CMD_OVERRIDE_DOWN_90, CMD_OVERRIDE_UP_6, CMD_OVERRIDE_DOWN_6,
      CMD_SET_FULL_CURTAIN_LENGTH, CMD_SET_MAX_CURTAIN_LENGTH, CMD_RESET_CURTAIN_LENGTH,
      CMD_EXT_OVERRIDE_DOWN, CMD_EXT_GET_VERSION, CMD_EXT_DEBUG, CMD_EXT_SENSOR_DEBUG,
      CMD_EXT_GET_LOCATION, CMD_EXT_GET_STATUS, CMD_EXT_GET_LIMITS}"
    using ne by (auto dest!: h)
  then show ?thesis
    unfolding cmd_def [symmetric] by (simp add: handle_switch_def)
qed



lemma handle_command_parameter:
  assumes "rx_buffer 3 \<noteq> 0x0a" and "rx_buffer 3 \<noteq> 0xfa" and "rx_buffer 3 \<noteq> 0xcc"
  shows "handle_command B F tmp0 rx_buffer tx burstindex s
    = Inr (1, tx, handle_parameter F tmp0 (rx_buffer 3) (rx_buffer 4) s)"
  unfolding handle_command_def Let_def
  by (simp add: handle_switch_default [OF assms])

lemma xor_bytes_3_7: "xor_bytes b 3 7 = b 3 XOR b 4 XOR b 5 XOR b 6"
  by (simp add: xor_bytes_def upt_rec)

lemma xor_bytes_3_8: "xor_bytes b 3 8 = b 3 XOR b 4 XOR b 5 XOR b 6 XOR b 7"
  by (simp add: xor_bytes_def upt_rec)

lemma reply_GET_STATUS_checksum:
  "tx_bytes (reply_GET_STATUS F rpm tx s) = 8
   \<and> tx_buffer (reply_GET_STATUS F rpm tx s) 7
       = xor_bytes (tx_buffer (reply_GET_STATUS F rpm tx s)) 3 7"
  by (simp add: reply_GET_STATUS_def Let_def xor_bytes_3_7)

lemma reply_EXT_GET_VERSION_checksum:
  "tx_bytes (reply_EXT_GET_VERSION B tx s) = 8
   \<and> tx_buffer (reply_EXT_GET_VERSION B tx s) 7
       = xor_bytes (tx_buffer (reply_EXT_GET_VERSION B tx s)) 3 7"
  by (simp add: reply_EXT_GET_VERSION_def Let_def xor_bytes_3_7)

lemma reply_EXT_GET_LOCATION_checksum:
  "tx_bytes (reply_EXT_GET_LOCATION tx s) = 8
   \<and> tx_buffer (reply_EXT_GET_LOCATION tx s) 7
       = xor_bytes (tx_buffer (reply_EXT_GET_LOCATION tx s)) 3 7"
  by (simp add: reply_EXT_GET_LOCATION_def Let_def xor_bytes_3_7)

lemma reply_EXT_DEBUG_checksum:
  "tx_bytes (reply_EXT_DEBUG tx s) = 9
   \<and> tx_buffer (reply_EXT_DEBUG tx s) 8 = xor_bytes (tx_buffer (reply_EXT_DEBUG tx s)) 3 8"
  by (simp add: reply_EXT_DEBUG_def Let_def xor_bytes_3_8)

lemma reply_EXT_SENSOR_DEBUG_checksum:
  "tx_bytes (reply_EXT_SENSOR_DEBUG tx s) = 9
   \<and> tx_buffer (reply_EXT_SENSOR_DEBUG tx s) 8
       = xor_bytes (tx_buffer (reply_EXT_SENSOR_DEBUG tx s)) 3 8"
  by (simp add: reply_EXT_SENSOR_DEBUG_def Let_def xor_bytes_3_8)

lemma reply_EXT_GET_STATUS_checksum:
  "tx_bytes (reply_EXT_GET_STATUS B F rpm tx s) = 9
   \<and> tx_buffer (reply_EXT_GET_STATUS B F rpm tx s) 8
       = xor_bytes (tx_buffer (reply_EXT_GET_STATUS B F rpm tx s)) 3 8"
  by (simp add: reply_EXT_GET_STATUS_def Let_def xor_bytes_3_8)

lemma reply_EXT_GET_LIMITS_checksum:
  "tx_bytes (reply_EXT_GET_LIMITS tx s) = 9
   \<and> tx_buffer (reply_EXT_GET_LIMITS tx s) 8
       = xor_bytes (tx_buffer (reply_EXT_GET_LIMITS tx s)) 3 8"
  by (simp add: reply_EXT_GET_LIMITS_def Let_def xor_bytes_3_8)

lemma handle_command_reply:
  assumes "get_rpm B s = Inr rpm" and "rx_buffer 3 = 0xcc"
  shows "handle_command B F tmp0 rx_buffer tx burstindex s =
    (if rx_buffer 4 = 0xcc then Inr (1, reply_GET_STATUS F rpm tx s, s)
     else if rx_buffer 4 = 0xdc then Inr (1, reply_EXT_GET_VERSION B tx s, s)
     else if rx_buffer 4 = 0xd1 then Inr (1, reply_EXT_DEBUG tx s, s)
     else if rx_buffer 4 = 0xd2 then Inr (1, reply_EXT_SENSOR_DEBUG tx s, s)
     else if rx_buffer 4 = 0xd0 then Inr (1, reply_EXT_GET_LOCATION tx s, s)
     else if rx_buffer 4 = 0xde then Inr (1, reply_EXT_GET_STATUS B F rpm tx s, s)
     else if rx_buffer 4 = 0xdf then Inr (1, reply_EXT_GET_LIMITS tx s, s)
     else handle_command B F tmp0 rx_buffer tx burstindex s)"
  using assms by (simp add: handle_command_def handle_switch_def Let_def)

text \<open>
  C6. For every reply frame that \<open>handle_command\<close> produces, to the opcodes 0xCCCC,
  0xCCDC, 0xCCD1, 0xCCD2, 0xCCD0, 0xCCDE and 0xCCDF, the last byte written, at index \<open>N\<close>,
  is the XOR of the bytes 3 to \<open>N - 1\<close>, and \<open>*tx_bytes\<close> is \<open>N + 1\<close>; \<open>N\<close> is 7 for
  0xCCCC, 0xCCDC and 0xCCD0 and 8 for the others. The state is left as it was.
\<close>

theorem reply_frames_checksum:
  assumes G: "0 < GEAR_RATIO B" and c1: "rx_buffer 3 = 0xcc"
    and c2: "rx_buffer 4 \<in> {0xcc, 0xdc, 0xd1, 0xd2, 0xd0, 0xde, 0xdf}"
  shows "\<exists>tx' N. handle_command B F tmp0 rx_buffer tx burstindex s = Inr (1, tx', s)
     \<and> N = (if rx_buffer 4 \<in> {0xcc, 0xdc, 0xd0} then 7 else 8)
     \<and> unat (tx_bytes tx') = N + 1
     \<and> tx_buffer tx' N = xor_bytes (tx_buffer tx') 3 N"
proof -
  from get_rpm_value [OF G] obtain rpm where rpm: "get_rpm B s = Inr rpm" by blast
  have h: "handle_command B F tmp0 rx_buffer tx burstindex s =
    (if rx_buffer 4 = 0xcc then Inr (1, reply_GET_STATUS F rpm tx s, s)
     else if rx_buffer 4 = 0xdc then Inr (1, reply_EXT_GET_VERSION B tx s, s)
     else if rx_buffer 4 = 0xd1 then Inr (1, reply_EXT_DEBUG tx s, s)
     else if rx_buffer 4 = 0xd2 then Inr (1, reply_EXT_SENSOR_DEBUG tx s, s)
     else if rx_buffer 4 = 0xd0 then Inr (1, reply_EXT_GET_LOCATION tx s, s)
     else if rx_buffer 4 = 0xde then Inr (1, reply_EXT_GET_STATUS B F rpm tx s, s)
     else if rx_buffer 4 = 0xdf then Inr (1, reply_EXT_GET_LIMITS tx s, s)
     else handle_command B F tmp0 rx_buffer tx burstindex s)"
    using rpm c1 by (rule handle_command_reply)
  from c2 consider "rx_buffer 4 = 0xcc" | "rx_buffer 4 = 0xdc" | "rx_buffer 4 = 0xd1"
    | "rx_buffer 4 = 0xd2" | "rx_buffer 4 = 0xd0" | "rx_buffer 4 = 0xde" | "rx_buffer 4 = 0xdf"
    by auto
  then show ?thesis
  proof cases
    case 1
    then show ?thesis using h reply_GET_STATUS_checksum [of F rpm tx s] by simp
  next
    case 2
    then show ?thesis using h reply_EXT_GET_VERSION_checksum [of B tx s] by simp
  next
    case 3
    then show ?thesis using h reply_EXT_DEBUG_checksum [of tx s] by simp
  next
    case 4
    then show ?thesis using h reply_EXT_SENSOR_DEBUG_checksum [of tx s] by simp
  next
    case 5
    then show ?thesis using h reply_EXT_GET_LOCATION_checksum [of tx s] by simp
  next
    case 6
    then show ?thesis using h reply_EXT_GET_STATUS_checksum [of B F rpm tx s] by simp
  next
    case 7
    then show ?thesis using h reply_EXT_GET_LIMITS_checksum [of tx s] by simp
  qed
qed

theorem reply_frames_checksum_witness:
  "0 < GEAR_RATIO example_board \<and> rx_frame 0xcc 0xcc 3 = 0xcc
   \<and> (\<exists>tx'. handle_command example_board exact_float_ops 0 (rx_frame 0xcc 0xcc) empty_tx 0
          (example_motor\<lparr>hall_sensor_1_interval := 10, adc_voltage := 160, location := 500\<rparr>)
        = Inr (1, tx', example_motor\<lparr>hall_sensor_1_interval := 10, adc_voltage := 160,
                 location := 500\<rparr>)
       \<and> tx_bytes tx' = 8 \<and> tx_buffer tx' 2 = 0xd8
       \<and> tx_buffer tx' 3 = 0x12 \<and> tx_buffer tx' 4 = 10 \<and> tx_buffer tx' 5 = 17
       \<and> tx_buffer tx' 6 = 50 \<and> tx_buffer tx' 7 = 0x3b)"
  using reply_frames_checksum [of example_board "rx_frame 0xcc 0xcc" exact_float_ops 0 empty_tx 0
      "example_motor\<lparr>hall_sensor_1_interval := 10, adc_voltage := 160, location := 500\<rparr>"]
  by (simp add: example_motor_def example_board_def exact_float_ops_def rx_frame_def
      empty_tx_def handle_command_def handle_switch_def reply_GET_STATUS_def get_rpm_def
      c_div_int_def c_div_u32_def signed_divide_int_def location_to_position100_def
      get_voltage_def calculate_battery_def word_sless_alt Let_def)

text \<open>
  C9, as stated, fails: the frame 0x20 0x01 leaves \<open>default_speed\<close> at 18; the code
  changes the speeds only for a parameter above 1.
\<close>

theorem set_speed_ignores_1:
  "handle_command example_board exact_float_ops 0 (rx_frame 0x20 1)
      empty_tx 0 example_motor
     = Inr (1, empty_tx, example_motor)
   \<and> default_speed example_motor \<noteq> 1"
  by (simp add: handle_command_def handle_switch_def handle_parameter_def example_motor_def
      rx_frame_def)

text \<open>
  C9, amended. For every received frame with \<open>cmd1 = 0x20\<close>: if \<open>cmd2 > 1\<close>,
  \<open>handle_command\<close> sets \<open>default_speed\<close> to \<open>cmd2\<close> and, if \<open>target_speed\<close> is not 0 (the
  motor has a setpoint), also \<open>target_speed\<close> to \<open>cmd2\<close>; if \<open>cmd2\<close> is 0 or 1 the state is
  unchanged. In both cases nothing is written to non-volatile storage and no reply is
  produced.
\<close>

theorem set_speed_guarded:
  assumes "rx_buffer 3 = CMD_EXT_SET_SPEED"
  shows "\<exists>s'. handle_command B F tmp0 rx_buffer tx burstindex s = Inr (1, tx, s')
     \<and> eeprom s' = eeprom s
     \<and> (1 < rx_buffer 4 \<longrightarrow>
           s' = s\<lparr>default_speed := rx_buffer 4,
                  target_speed := (if target_speed s \<noteq> 0 then rx_buffer 4 else 0)\<rparr>
           \<and> default_speed s' = rx_buffer 4
           \<and> (target_speed s \<noteq> 0 \<longrightarrow> target_speed s' = rx_buffer 4))
     \<and> (rx_buffer 4 \<le> 1 \<longrightarrow> s' = s)"
proof -
  have "handle_command B F tmp0 rx_buffer tx burstindex s
    = Inr (1, tx, handle_parameter F tmp0 (rx_buffer 3) (rx_buffer 4) s)"
    using assms by (intro handle_command_parameter) simp_all
  then show ?thesis
    using assms by (auto simp add: handle_parameter_def Let_def not_less)
qed

theorem set_speed_guarded_witness:
  "rx_frame 0x20 25 3 = CMD_EXT_SET_SPEED
   \<and> handle_command example_board exact_float_ops 0 (rx_frame 0x20 25)
        empty_tx 0 (example_motor\<lparr>target_speed := 18\<rparr>)
      = Inr (1, empty_tx,
             example_motor\<lparr>default_speed := 25, target_speed := 25\<rparr>)"
  using set_speed_guarded [of "rx_frame 0x20 25" example_board exact_float_ops 0
      empty_tx 0 "example_motor\<lparr>target_speed := 18\<rparr>"]
  by (simp add: example_motor_def handle_command_def handle_switch_def handle_parameter_def
      Let_def rx_frame_def)

lemma go_to_target_result:
  "target_location (go_to_target t s) = t
   \<and> command (go_to_target t s) = (if t <s location s then MotorUp else MotorDown)
   \<and> location (go_to_target t s) = location s"
  by (simp add: go_to_target_def Let_def)

lemma motor_process_down_state:
  "command s = MotorDown \<Longrightarrow>
     motor_process s = s\<lparr>LOW1_PWM_running := True, LOW2_PWM_running := False,
        HIGH_1_GATE := False, HIGH_2_GATE := True, CCR1 := 60, CCR4 := 0,
        status := Moving, direction := Down, curr_pwm := 60,
        sensor_ticks_while_stopped := 0,
        saved_hall_sensor_1_ticks := hall_sensor_1_ticks s,
        saved_hall_sensor_2_ticks := hall_sensor_2_ticks s,
        hall_sensor_1_interval := 0, hall_sensor_1_ticks := 0, hall_sensor_2_ticks := 0,
        hall_sensor_1_idle_time := 0, target_speed := default_speed s,
        uwTick := uwTick s + 10, movement_started_timestamp := uwTick s + 10,
        command := NoCommand\<rparr>"
  by (simp add: motor_process_def motor_down_def motor_start_common_def motor_stop_def
      HAL_Delay_def HAL_GetTick_def INITIAL_PWM_def Let_def)

lemma nibble_1: "(c::u8) AND 0xf0 = 0x10 \<Longrightarrow>
   c \<noteq> 0x0a \<and> c \<noteq> 0xfa \<and> c \<noteq> 0xcc \<and> c \<noteq> 0x20 \<and> c \<noteq> 0x30 \<and> c \<noteq> 0xdd"
  by auto

lemma nibble_7: "(c::u8) AND 0xf0 = 0x70 \<Longrightarrow>
   c \<noteq> 0x0a \<and> c \<noteq> 0xfa \<and> c \<noteq> 0xcc \<and> c \<noteq> 0x20 \<and> c \<noteq> 0x30 \<and> c \<noteq> 0xdd
   \<and> c \<noteq> 0x40 \<and> c \<noteq> 0x60 \<and> c AND 0xf0 \<noteq> 0x10 \<and> c AND 0xf0 \<noteq> 0x50"
  by auto

lemma handle_go_to:
  assumes "rx_buffer 3 = CMD_GO_TO" and "calibrating s = 0"
  shows "handle_command B F tmp0 rx_buffer tx burstindex s
    = Inr (1, tx, go_to_target
        (position100_to_location F (f_of_int F (uint (rx_buffer 4))) s) s)"
proof -
  have "handle_command B F tmp0 rx_buffer tx burstindex s
    = Inr (1, tx, handle_parameter F tmp0 (rx_buffer 3) (rx_buffer 4) s)"
    using assms by (intro handle_command_parameter) simp_all
  then show ?thesis
    using assms by (simp add: handle_parameter_def Let_def)
qed

lemma handle_ext_go_to:
  assumes "rx_buffer 3 AND 0xf0 = CMD_EXT_GO_TO" and "calibrating s = 0"
  shows "handle_command B F tmp0 rx_buffer tx burstindex s
    = Inr (1, tx, go_to_target
        (position100_to_location F
           (f_div F (f_of_int F (uint (push_bit 8 (ucast (rx_buffer 3 AND 0x0f))
                                        + ucast (rx_buffer 4) :: u16)))
                    (f_of_int F 16)) s) s)"
proof -
  note n = nibble_1 [OF assms(1)]
  have "handle_command B F tmp0 rx_buffer tx burstindex s
    = Inr (1, tx, handle_parameter F tmp0 (rx_buffer 3) (rx_buffer 4) s)"
    using n by (intro handle_command_parameter) simp_all
  then show ?thesis
    using assms n by (simp add: handle_parameter_def Let_def)
qed

lemma handle_ext_go_to_location:
  assumes "rx_buffer 3 AND 0xf0 = CMD_EXT_GO_TO_LOCATION"
  shows "handle_command B F tmp0 rx_buffer tx burstindex s
    = Inr (1, tx, go_to_target
        (push_bit 1 (push_bit 8 (ucast (rx_buffer 3 AND 0x0f)) + ucast (rx_buffer 4))) s)"
proof -
  note n = nibble_7 [OF assms(1)]
  have "handle_command B F tmp0 rx_buffer tx burstindex s
    = Inr (1, tx, handle_parameter F tmp0 (rx_buffer 3) (rx_buffer 4) s)"
    using n by (intro handle_command_parameter) simp_all
  then show ?thesis
    using assms n by (simp add: handle_parameter_def Let_def)
qed

text \<open>
  C10. For every go-to command that the dispatcher accepts (opcode 0xDD and prefix 0x10
  while \<open>calibrating\<close> is false, prefix 0x70 always), \<open>target_location\<close> is set to the
  computed target, \<open>MotorUp\<close> is enqueued exactly when the target is below the current
  location (signed comparison) and \<open>MotorDown\<close> otherwise, and nothing else changes. When
  the target equals the current location, \<open>MotorDown\<close> is enqueued, and \<open>motor_process\<close>
  then starts the motor downwards: the low-side channel LOW1 runs with compare value and
  \<open>curr_pwm\<close> at 60, the high-side gate 2 is asserted and gate 1 is not, the status is
  \<open>Moving\<close>, the direction \<open>Down\<close>, \<open>target_speed\<close> is \<open>default_speed\<close> and the mailbox is
  empty again.
\<close>

theorem go_to_direction:
  assumes "rx_buffer 3 = CMD_GO_TO \<and> calibrating s = 0
        \<and> T = position100_to_location F (f_of_int F (uint (rx_buffer 4))) s
     \<or> rx_buffer 3 AND 0xf0 = CMD_EXT_GO_TO \<and> calibrating s = 0
        \<and> T = position100_to_location F
             (f_div F (f_of_int F (uint (push_bit 8 (ucast (rx_buffer 3 AND 0x0f))
                                          + ucast (rx_buffer 4) :: u16)))
                      (f_of_int F 16)) s
     \<or> rx_buffer 3 AND 0xf0 = CMD_EXT_GO_TO_LOCATION
        \<and> T = push_bit 1 (push_bit 8 (ucast (rx_buffer 3 AND 0x0f)) + ucast (rx_buffer 4))"
  shows "\<exists>s'. handle_command B F tmp0 rx_buffer tx burstindex s = Inr (1, tx, s')
     \<and> s' = s\<lparr>target_location := T,
               command := (if T <s location s then MotorUp else MotorDown)\<rparr>
     \<and> target_location s' = T
     \<and> (command s' = MotorUp \<longleftrightarrow> T <s location s)
     \<and> (command s' = MotorDown \<longleftrightarrow> \<not> T <s location s)
     \<and> (T = location s \<longrightarrow> command s' = MotorDown
           \<and> motor_process s' = s\<lparr>target_location := T,
                LOW1_PWM_running := True, LOW2_PWM_running := False,
                HIGH_1_GATE := False, HIGH_2_GATE := True, CCR1 := 60, CCR4 := 0,
                status := Moving, direction := Down, curr_pwm := 60,
                sensor_ticks_while_stopped := 0,
                saved_hall_sensor_1_ticks := hall_sensor_1_ticks s,
                saved_hall_sensor_2_ticks := hall_sensor_2_ticks s,
                hall_sensor_1_interval := 0, hall_sensor_1_ticks := 0,
                hall_sensor_2_ticks := 0, hall_sensor_1_idle_time := 0,
                target_speed := default_speed s, uwTick := uwTick s + 10,
                movement_started_timestamp := uwTick s + 10, command := NoCommand\<rparr>
           \<and> status (motor_process s') = Moving \<and> direction (motor_process s') = Down
           \<and> HIGH_2_GATE (motor_process s') \<and> \<not> HIGH_1_GATE (motor_process s')
           \<and> LOW1_PWM_running (motor_process s') \<and> \<not> LOW2_PWM_running (motor_process s')
           \<and> CCR1 (motor_process s') = 60 \<and> CCR4 (motor_process s') = 0
           \<and> curr_pwm (motor_process s') = 60
           \<and> target_speed (motor_process s') = default_speed s
           \<and> command (motor_process s') = NoCommand)"
proof -
  define s' where "s' = s\<lparr>target_location := T,
               command := (if T <s location s then MotorUp else MotorDown)\<rparr>"
  have gt: "go_to_target T s = s'"
    by (simp add: go_to_target_def Let_def s'_def)
  have h: "handle_command B F tmp0 rx_buffer tx burstindex s = Inr (1, tx, s')"
    using assms handle_go_to [of rx_buffer s B F tmp0 tx burstindex]
      handle_ext_go_to [of rx_buffer s B F tmp0 tx burstindex]
      handle_ext_go_to_location [of rx_buffer B F tmp0 tx burstindex s]
    unfolding gt [symmetric] by auto
  have c: "target_location s' = T" "command s' = MotorUp \<longleftrightarrow> T <s location s"
    "command s' = MotorDown \<longleftrightarrow> \<not> T <s location s"
    by (simp_all add: s'_def)
  have m: "command s' = MotorDown
           \<and> motor_process s' = s\<lparr>target_location := T,
                LOW1_PWM_running := True, LOW2_PWM_running := False,
                HIGH_1_GATE := False, HIGH_2_GATE := True, CCR1 := 60, CCR4 := 0,
                status := Moving, direction := Down, curr_pwm := 60,
                sensor_ticks_while_stopped := 0,
                saved_hall_sensor_1_ticks := hall_sensor_1_ticks s,
                saved_hall_sensor_2_ticks := hall_sensor_2_ticks s,
                hall_sensor_1_interval := 0, hall_sensor_1_ticks := 0,
                hall_sensor_2_ticks := 0, hall_sensor_1_idle_time := 0,
                target_speed := default_speed s, uwTick := uwTick s + 10,
                movement_started_timestamp := uwTick s + 10, command := NoCommand\<rparr>"
    if "T = location s"
  proof -
    have d: "command s' = MotorDown" using that by (simp add: s'_def word_sless_alt)
    have e: "s' = s\<lparr>target_location := T, command := MotorDown\<rparr>"
      using that by (simp add: s'_def word_sless_alt)
    show ?thesis using d motor_process_down_state [OF d] by (simp add: e)
  qed
  have "T = location s \<longrightarrow> command s' = MotorDown
           \<and> motor_process s' = s\<lparr>target_location := T,
                LOW1_PWM_running := True, LOW2_PWM_running := False,
                HIGH_1_GATE := False, HIGH_2_GATE := True, CCR1 := 60, CCR4 := 0,
                status := Moving, direction := Down, curr_pwm := 60,
                sensor_ticks_while_stopped := 0,
                saved_hall_sensor_1_ticks := hall_sensor_1_ticks s,
                saved_hall_sensor_2_ticks := hall_sensor_2_ticks s,
                hall_sensor_1_interval := 0, hall_sensor_1_ticks := 0,
                hall_sensor_2_ticks := 0, hall_sensor_1_idle_time := 0,
                target_speed := default_speed s, uwTick := uwTick s + 10,
                movement_started_timestamp := uwTick s + 10, command := NoCommand\<rparr>
           \<and> status (motor_process s') = Moving \<and> direction (motor_process s') = Down
           \<and> HIGH_2_GATE (motor_process s') \<and> \<not> HIGH_1_GATE (motor_process s')
           \<and> LOW1_PWM_running (motor_process s') \<and> \<not> LOW2_PWM_running (motor_process s')
           \<and> CCR1 (motor_process s') = 60 \<and> CCR4 (motor_process s') = 0
           \<and> curr_pwm (motor_process s') = 60
           \<and> target_speed (motor_process s') = default_speed s
           \<and> command (motor_process s') = NoCommand"
  proof
    assume t: "T = location s"
    note mm = m [OF t]
    from mm have p: "motor_process s' = s\<lparr>target_location := T,
                LOW1_PWM_running := True, LOW2_PWM_running := False,
                HIGH_1_GATE := False, HIGH_2_GATE := True, CCR1 := 60, CCR4 := 0,
                status := Moving, direction := Down, curr_pwm := 60,
                sensor_ticks_while_stopped := 0,
                saved_hall_sensor_1_ticks := hall_sensor_1_ticks s,
                saved_hall_sensor_2_ticks := hall_sensor_2_ticks s,
                hall_sensor_1_interval := 0, hall_sensor_1_ticks := 0,
                hall_sensor_2_ticks := 0, hall_sensor_1_idle_time := 0,
                target_speed := default_speed s, uwTick := uwTick s + 10,
                movement_started_timestamp := uwTick s + 10, command := NoCommand\<rparr>"
      by blast
    show "command s' = MotorDown
           \<and> motor_process s' = s\<lparr>target_location := T,
                LOW1_PWM_running := True, LOW2_PWM_running := False,
                HIGH_1_GATE := False, HIGH_2_GATE := True, CCR1 := 60, CCR4 := 0,
                status := Moving, direction := Down, curr_pwm := 60,
                sensor_ticks_while_stopped := 0,
                saved_hall_sensor_1_ticks := hall_sensor_1_ticks s,
                saved_hall_sensor_2_ticks := hall_sensor_2_ticks s,
                hall_sensor_1_interval := 0, hall_sensor_1_ticks := 0,
                hall_sensor_2_ticks := 0, hall_sensor_1_idle_time := 0,
                target_speed := default_speed s, uwTick := uwTick s + 10,
                movement_started_timestamp := uwTick s + 10, command := NoCommand\<rparr>
           \<and> status (motor_process s') = Moving \<and> direction (motor_process s') = Down
           \<and> HIGH_2_GATE (motor_process s') \<and> \<not> HIGH_1_GATE (motor_process s')
           \<and> LOW1_PWM_running (motor_process s') \<and> \<not> LOW2_PWM_running (motor_process s')
           \<and> CCR1 (motor_process s') = 60 \<and> CCR4 (motor_process s') = 0
           \<and> curr_pwm (motor_process s') = 60
           \<and> target_speed (motor_process s') = default_speed s
           \<and> command (motor_process s') = NoCommand"
      using mm unfolding p by simp
  qed
  then show ?thesis using h c unfolding s'_def [symmetric] by blast
qed

theorem go_to_direction_witness:
  "handle_command example_board exact_float_ops 0 (rx_frame 0x70 0)
        empty_tx 0 example_motor
      = Inr (1, empty_tx, example_motor\<lparr>command := MotorDown\<rparr>)
   \<and> target_location (example_motor\<lparr>command := MotorDown\<rparr>) = location example_motor
   \<and> motor_process (example_motor\<lparr>command := MotorDown\<rparr>)
      = example_motor\<lparr>status := Moving, direction := Down, target_speed := 18,
          curr_pwm := 60, movement_started_timestamp := 10, CCR1 := 60,
          LOW1_PWM_running := True, HIGH_2_GATE := True, uwTick := 10\<rparr>"
  using go_to_direction [of "rx_frame 0x70 0" example_motor 0 exact_float_ops
      example_board 0 empty_tx 0]
  by (simp add: example_motor_def handle_command_def handle_switch_def handle_parameter_def
      rx_frame_def go_to_target_def word_sless_alt motor_process_def motor_down_def motor_start_common_def
      motor_stop_def HAL_Delay_def HAL_GetTick_def INITIAL_PWM_def Let_def)

end
